theory Spec2Isabelle
  imports Main "HOL-Library.AList"
begin

section \<open>Values of the Python program\<close>

text \<open>
  The client works on parsed JSON. A JSON object keeps its keys in the order of the
  document, as a Python dict does, so it is an association list; its keys are strings and
  no key occurs twice (a lookup takes the first entry of a key). Numbers are integers:
  the bodies the client reads carry identifiers, offsets and flags, and non-integer
  numbers are outside this model. Strings are ASCII.
\<close>

datatype json =
    JNull
  | JBool bool
  | JInt int
  | JStr string
  | JList "json list"
  | JObj "(string \<times> json) list"

text \<open>
  Every exception the code can meet is a value. \<open>Exception msg\<close> is the plain
  \<^verbatim>\<open>raise Exception(msg)\<close> of the source with its message; \<open>TransportError\<close> stands for
  whatever the HTTP layer raises.
\<close>

datatype error =
    TypeError
  | KeyError
  | IndexError
  | ValueError
  | AttributeError
  | JSONDecodeError
  | TransportError string
  | Exception string

subsection \<open>Python's operators on these values\<close>

text \<open>Truthiness, as \<^verbatim>\<open>if x\<close> and \<^verbatim>\<open>not x\<close> read it.\<close>

fun truthy :: "json \<Rightarrow> bool" where
  "truthy JNull = False"
| "truthy (JBool b) = b"
| "truthy (JInt n) = (n \<noteq> 0)"
| "truthy (JStr s) = (s \<noteq> [])"
| "truthy (JList xs) = (xs \<noteq> [])"
| "truthy (JObj kvs) = (kvs \<noteq> [])"

fun isinstance_dict :: "json \<Rightarrow> bool" where
  "isinstance_dict (JObj kvs) = True"
| "isinstance_dict v = False"

text \<open>\<^verbatim>\<open>needle in hay\<close> for two strings: \<open>needle\<close> occurs in \<open>hay\<close>.\<close>

fun substring :: "string \<Rightarrow> string \<Rightarrow> bool" where
  "substring needle [] = (needle = [])"
| "substring needle (c # cs) =
     (take (length needle) (c # cs) = needle \<or> substring needle cs)"

text \<open>
  \<^verbatim>\<open>key in v\<close> for a string \<open>key\<close>: a key of a dict, an element of a list, a substring of
  a string; the other values are not iterable and raise.
\<close>

fun contains :: "string \<Rightarrow> json \<Rightarrow> error + bool" where
  "contains key (JObj kvs) = Inr (key \<in> set (map fst kvs))"
| "contains key (JList xs) = Inr (JStr key \<in> set xs)"
| "contains key (JStr s) = Inr (substring key s)"
| "contains key v = Inl TypeError"

text \<open>An index into a sequence of length \<open>n\<close>: negative indices count from the end.\<close>

definition seq_index :: "nat \<Rightarrow> int \<Rightarrow> error + nat" where
  "seq_index n i =
     (let j = (if i < 0 then int n + i else i)
      in if 0 \<le> j \<and> j < int n then Inr (nat j) else Inl IndexError)"

fun index_of :: "json \<Rightarrow> int option" where
  "index_of (JInt i) = Some i"
| "index_of (JBool b) = Some (if b then 1 else 0)"
| "index_of v = None"

text \<open>
  \<^verbatim>\<open>v[key]\<close>: a dict looks the key up (its keys are strings; a list or a dict as key is
  unhashable), a list and a string take an integer index, the other values are not
  subscriptable.
\<close>

fun getitem :: "json \<Rightarrow> json \<Rightarrow> error + json" where
  "getitem (JObj kvs) (JStr k) =
     (case map_of kvs k of None \<Rightarrow> Inl KeyError | Some v \<Rightarrow> Inr v)"
| "getitem (JObj kvs) (JList ks) = Inl TypeError"
| "getitem (JObj kvs) (JObj ks) = Inl TypeError"
| "getitem (JObj kvs) k = Inl KeyError"
| "getitem (JList xs) k =
     (case index_of k of
        None \<Rightarrow> Inl TypeError
      | Some i \<Rightarrow>
          (case seq_index (length xs) i of Inl e \<Rightarrow> Inl e | Inr j \<Rightarrow> Inr (xs ! j)))"
| "getitem (JStr s) k =
     (case index_of k of
        None \<Rightarrow> Inl TypeError
      | Some i \<Rightarrow>
          (case seq_index (length s) i of Inl e \<Rightarrow> Inl e | Inr j \<Rightarrow> Inr (JStr [s ! j])))"
| "getitem v k = Inl TypeError"

text \<open>
  \<^verbatim>\<open>for x in v\<close>: the keys of a dict, the elements of a list, the characters of a string.
\<close>

fun iterate :: "json \<Rightarrow> error + json list" where
  "iterate (JObj kvs) = Inr (map (\<lambda>kv. JStr (fst kv)) kvs)"
| "iterate (JList xs) = Inr xs"
| "iterate (JStr s) = Inr (map (\<lambda>c. JStr [c]) s)"
| "iterate v = Inl TypeError"

subsection \<open>The builtin int\<close>

definition is_digit :: "char \<Rightarrow> bool" where
  "is_digit c = (c \<in> set ''0123456789'')"

definition digit_val :: "char \<Rightarrow> int" where
  "digit_val c = int (of_char c) - 48"

definition int_of_digits :: "string \<Rightarrow> int" where
  "int_of_digits ds = foldl (\<lambda>a c. 10 * a + digit_val c) 0 ds"

text \<open>
  The white space that \<^verbatim>\<open>int\<close> strips from both ends of an ASCII string: tab, line feed,
  vertical tab, form feed, carriage return and space.
\<close>

definition is_space :: "char \<Rightarrow> bool" where
  "is_space c = (of_char c \<in> set [9, 10, 11, 12, 13, 32 :: nat])"

definition strip :: "string \<Rightarrow> string" where
  "strip s = rev (dropWhile is_space (rev (dropWhile is_space s)))"

text \<open>
  Digits with single underscores between them, as the literal grammar of \<^verbatim>\<open>int\<close> allows:
  \<open>after_digit\<close> tells whether the character before was a digit.
\<close>

fun digit_groups :: "bool \<Rightarrow> string \<Rightarrow> bool" where
  "digit_groups after_digit [] = after_digit"
| "digit_groups after_digit (c # cs) =
     (if is_digit c then digit_groups True cs
      else if c = CHR ''_'' \<and> after_digit then digit_groups False cs
      else False)"

definition unsigned_of_string :: "string \<Rightarrow> error + int" where
  "unsigned_of_string s =
     (if digit_groups False s then Inr (int_of_digits (filter is_digit s))
      else Inl ValueError)"

definition int_of_string :: "string \<Rightarrow> error + int" where
  "int_of_string s =
     (case strip s of
        [] \<Rightarrow> Inl ValueError
      | c # cs \<Rightarrow>
          if c = CHR ''-'' then
            (case unsigned_of_string cs of Inl e \<Rightarrow> Inl e | Inr n \<Rightarrow> Inr (- n))
          else if c = CHR ''+'' then unsigned_of_string cs
          else unsigned_of_string (c # cs))"

text \<open>
  \<^verbatim>\<open>int(v)\<close>: an integer is itself, a bool is 0 or 1, a string is parsed in base ten or
  raises ValueError, a list, a dict and None raise TypeError.
\<close>

fun py_int :: "json \<Rightarrow> error + int" where
  "py_int (JInt n) = Inr n"
| "py_int (JBool b) = Inr (if b then 1 else 0)"
| "py_int (JStr s) = int_of_string s"
| "py_int v = Inl TypeError"

section \<open>The data model\<close>

text \<open>
  Table, Column and Record with the attributes the code reads. A Column has the attribute
  \<^verbatim>\<open>linked_table_id\<close> or not (\<^verbatim>\<open>hasattr\<close>): an option. A Record keeps the row it was built
  from as its attribute bag.
\<close>

record table =
  table_id :: string
  table_title :: string
  base_id :: string

record column =
  column_id :: string
  column_title :: string
  system :: bool
  linked_table_id :: "string option"

record base =
  base_ident :: string

record record_obj =
  record_table :: table
  record_id :: json
  metadata :: "(string \<times> json) list"

subsection \<open>Requests\<close>

text \<open>
  A request is what \<^verbatim>\<open>call_noco\<close> receives: the path, the method, the query parameters and
  the JSON payload. A path is kept by its parts instead of the formatted string, and the
  filter \<^verbatim>\<open>(Id,in,i1,i2,...)\<close> by the list of identifiers it is formatted from.
\<close>

datatype path =
    TableRecords string
  | TableLinks string string json
  | MetaTable string
  | MetaTableColumns string

datatype http_method = GET | POST

datatype param = PInt int | PStr string | PIdIn "json list"

record request =
  req_path :: path
  req_method :: http_method
  req_params :: "(string \<times> param) list"
  req_json :: "json option"

text \<open>A response whose body does not parse makes \<^verbatim>\<open>r.json()\<close> raise.\<close>

datatype response = Response "json option"

fun json_of :: "response \<Rightarrow> error + json" where
  "json_of (Response None) = Inl JSONDecodeError"
| "json_of (Response (Some v)) = Inr v"

text \<open>
  The client object \<^verbatim>\<open>noco_db\<close> and the classes Base and Column are not part of the two
  source files: they are parameters. \<open>call_noco\<close> sends a request and returns the response
  or raises; \<open>get_table\<close> and \<open>get_base\<close> are the client's lookups by identifier;
  \<open>get_tables\<close> is \<^verbatim>\<open>Base.get_tables\<close>; \<open>new_Column\<close> is the constructor of Column applied
  to one entry of a table's column list. During one read operation the answers are a
  function of the request: the server is not written to meanwhile.
\<close>

record noco_db =
  call_noco :: "request \<Rightarrow> error + response"
  get_table :: "string \<Rightarrow> error + table"
  get_base :: "string \<Rightarrow> error + base"
  get_tables :: "base \<Rightarrow> error + table list"
  new_Column :: "json \<Rightarrow> error + column"

section \<open>Table\<close>

subsection \<open>Table.get_duplicates\<close>

text \<open>
  The pattern is \<^verbatim>\<open>^{self.title} copy(_\d+)?$\<close> with the title spliced in as it is. The model
  covers the titles every character of which stands for itself in a pattern
  (\<open>regex_literal\<close>); the theorems about \<open>get_duplicates\<close> assume it of the title. For such
  a title \<^verbatim>\<open>re.match\<close> succeeds on the title followed by \<^verbatim>\<open> copy\<close>, then nothing or an
  underscore and digits, then the end of the string or the one newline that ends it
  (where \<^verbatim>\<open>$\<close> matches too).
\<close>

definition regex_literal :: "string \<Rightarrow> bool" where
  "regex_literal s = list_all (\<lambda>c. c \<notin> set (CHR 0x5C # ''.^$*+?{}[]|()'')) s"

definition copy_suffix :: "string \<Rightarrow> bool" where
  "copy_suffix s =
     (case s of
        [] \<Rightarrow> True
      | c # ds \<Rightarrow> c = CHR ''_'' \<and> ds \<noteq> [] \<and> list_all is_digit ds)"

definition chomp :: "string \<Rightarrow> string" where
  "chomp s = (if s \<noteq> [] \<and> last s = CHR 0x0A then butlast s else s)"

definition copy_match :: "string \<Rightarrow> string \<Rightarrow> bool" where
  "copy_match title s =
     (let p = title @ '' copy''
      in take (length p) (chomp s) = p \<and> copy_suffix (drop (length p) (chomp s)))"

text \<open>
  \<^verbatim>\<open>re.findall("_(\d+)", s)\<close>, first element: the digits after the leftmost underscore
  that a digit follows (\<^verbatim>\<open>\d\<close> is 0 to 9 here), and the number \<^verbatim>\<open>int\<close> reads from them.
\<close>

fun first_nr :: "string \<Rightarrow> string option" where
  "first_nr [] = None"
| "first_nr (c # cs) =
     (if c = CHR ''_'' \<and> takeWhile is_digit cs \<noteq> [] then Some (takeWhile is_digit cs)
      else first_nr cs)"

definition duplicate_nr :: "string \<Rightarrow> int" where
  "duplicate_nr s = (case first_nr s of Some ds \<Rightarrow> int_of_digits ds | None \<Rightarrow> 0)"

text \<open>One round of the loop over the tables of the base: the dict \<open>duplicates\<close> is updated.\<close>

definition add_duplicate :: "string \<Rightarrow> (int \<times> table) list \<Rightarrow> table \<Rightarrow> (int \<times> table) list" where
  "add_duplicate title duplicates t =
     (if copy_match title (table_title t)
      then AList.update (duplicate_nr (table_title t)) t duplicates
      else duplicates)"

definition get_duplicates :: "noco_db \<Rightarrow> table \<Rightarrow> error + table list" where
  "get_duplicates nc tb =
     (case get_base nc (base_id tb) of
        Inl e \<Rightarrow> Inl e
      | Inr b \<Rightarrow>
          (case get_tables nc b of
             Inl e \<Rightarrow> Inl e
           | Inr ts \<Rightarrow>
               Inr (map snd (rev (sort_key fst (foldl (add_duplicate (table_title tb)) [] ts))))))"

subsection \<open>Table.get_columns\<close>

fun map_err :: "('a \<Rightarrow> error + 'b) \<Rightarrow> 'a list \<Rightarrow> error + 'b list" where
  "map_err f [] = Inr []"
| "map_err f (x # xs) =
     (case f x of
        Inl e \<Rightarrow> Inl e
      | Inr y \<Rightarrow> (case map_err f xs of Inl e \<Rightarrow> Inl e | Inr ys \<Rightarrow> Inr (y # ys)))"

definition columns_request :: "table \<Rightarrow> request" where
  "columns_request tb =
     \<lparr>req_path = MetaTable (table_id tb), req_method = GET, req_params = [], req_json = None\<rparr>"

definition get_columns :: "noco_db \<Rightarrow> table \<Rightarrow> bool \<Rightarrow> error + column list" where
  "get_columns nc tb include_system =
     (case call_noco nc (columns_request tb) of
        Inl e \<Rightarrow> Inl e
      | Inr r \<Rightarrow>
          (case json_of r of
             Inl e \<Rightarrow> Inl e
           | Inr body \<Rightarrow>
               (case getitem body (JStr ''columns'') of
                  Inl e \<Rightarrow> Inl e
                | Inr l \<Rightarrow>
                    (case iterate l of
                       Inl e \<Rightarrow> Inl e
                     | Inr fs \<Rightarrow>
                         (case map_err (new_Column nc) fs of
                            Inl e \<Rightarrow> Inl e
                          | Inr cols \<Rightarrow>
                              Inr (if include_system then cols
                                   else filter (\<lambda>c. \<not> system c) cols))))))"

subsection \<open>Table.get_records\<close>

text \<open>
  \<^verbatim>\<open>Record(self, **r)\<close>: the row must be a dict with the key \<^verbatim>\<open>Id\<close>; the keys \<^verbatim>\<open>self\<close> and
  \<^verbatim>\<open>table\<close> would collide with the constructor's own parameters.
\<close>

fun new_Record :: "table \<Rightarrow> json \<Rightarrow> error + record_obj" where
  "new_Record tb (JObj kvs) =
     (if ''self'' \<in> set (map fst kvs) \<or> ''table'' \<in> set (map fst kvs) then Inl TypeError
      else
        (case map_of kvs ''Id'' of
           None \<Rightarrow> Inl KeyError
         | Some i \<Rightarrow> Inr \<lparr>record_table = tb, record_id = i, metadata = kvs\<rparr>))"
| "new_Record tb v = Inl TypeError"

definition page_records :: "table \<Rightarrow> json \<Rightarrow> error + record_obj list" where
  "page_records tb body =
     (case getitem body (JStr ''list'') of
        Inl e \<Rightarrow> Inl e
      | Inr l \<Rightarrow>
          (case iterate l of Inl e \<Rightarrow> Inl e | Inr rows \<Rightarrow> map_err (new_Record tb) rows))"

definition is_last_page :: "json \<Rightarrow> error + bool" where
  "is_last_page body =
     (case getitem body (JStr ''pageInfo'') of
        Inl e \<Rightarrow> Inl e
      | Inr info \<Rightarrow>
          (case getitem info (JStr ''isLastPage'') of
             Inl e \<Rightarrow> Inl e
           | Inr v \<Rightarrow> Inr (truthy v)))"

definition records_request :: "table \<Rightarrow> (string \<times> param) list \<Rightarrow> request" where
  "records_request tb params =
     \<lparr>req_path = TableRecords (table_id tb), req_method = GET, req_params = params,
      req_json = None\<rparr>"

text \<open>One round of the loop up to its test: the request, the new records, the flag.\<close>

definition fetch_page :: "noco_db \<Rightarrow> table \<Rightarrow> (string \<times> param) list \<Rightarrow> error + record_obj list \<times> bool" where
  "fetch_page nc tb params =
     (case call_noco nc (records_request tb params) of
        Inl e \<Rightarrow> Inl e
      | Inr r \<Rightarrow>
          (case json_of r of
             Inl e \<Rightarrow> Inl e
           | Inr body \<Rightarrow>
               (case page_records tb body of
                  Inl e \<Rightarrow> Inl e
                | Inr recs \<Rightarrow>
                    (case is_last_page body of
                       Inl e \<Rightarrow> Inl e
                     | Inr last_page \<Rightarrow> Inr (recs, last_page)))))"

text \<open>
  \<^verbatim>\<open>params["offset"] += params["limit"]\<close>. The loop comes here only after it has seeded both
  with integers.
\<close>

definition advance_offset :: "(string \<times> param) list \<Rightarrow> error + (string \<times> param) list" where
  "advance_offset params =
     (case map_of params ''offset'' of
        None \<Rightarrow> Inl KeyError
      | Some (PInt off) \<Rightarrow>
          (case map_of params ''limit'' of
             None \<Rightarrow> Inl KeyError
           | Some (PInt lim) \<Rightarrow> Inr (AList.update ''offset'' (PInt (off + lim)) params)
           | Some v \<Rightarrow> Inl TypeError)
      | Some v \<Rightarrow> Inl TypeError)"

text \<open>
  The \<^verbatim>\<open>while True\<close> loop. It may run forever (a server that never reports the last page),
  so its result is an option: \<open>None\<close> is "does not return". A returned value is the list of
  the requests sent, in order, and the records or the exception.
\<close>

partial_function (option) get_records_loop ::
  "noco_db \<Rightarrow> table \<Rightarrow> bool \<Rightarrow> (string \<times> param) list \<Rightarrow> record_obj list \<Rightarrow> request list
     \<Rightarrow> (request list \<times> (error + record_obj list)) option"
where
  "get_records_loop nc tb get_all_records params records sent =
     (case fetch_page nc tb params of
        Inl e \<Rightarrow> Some (sent @ [records_request tb params], Inl e)
      | Inr page \<Rightarrow>
          if snd page then Some (sent @ [records_request tb params], Inr (records @ fst page))
          else if \<not> get_all_records
            then Some (sent @ [records_request tb params], Inr (records @ fst page))
          else
            (case advance_offset params of
               Inl e \<Rightarrow> Some (sent @ [records_request tb params], Inl e)
             | Inr params' \<Rightarrow>
                 get_records_loop nc tb get_all_records params' (records @ fst page)
                   (sent @ [records_request tb params])))"

declare get_records_loop.simps [code]

definition get_records ::
  "noco_db \<Rightarrow> table \<Rightarrow> (string \<times> param) list option
     \<Rightarrow> (request list \<times> (error + record_obj list)) option" where
  "get_records nc tb params_arg =
     (let params = (case params_arg of None \<Rightarrow> [] | Some p \<Rightarrow> p)
      in if ''offset'' \<in> set (map fst params) \<or> ''limit'' \<in> set (map fst params)
         then get_records_loop nc tb False params [] []
         else get_records_loop nc tb True
                (AList.update ''limit'' (PInt 1000) (AList.update ''offset'' (PInt 0) params))
                [] [])"

definition get_records_by_id ::
  "noco_db \<Rightarrow> table \<Rightarrow> json list \<Rightarrow> (request list \<times> (error + record_obj list)) option" where
  "get_records_by_id nc tb record_ids = get_records nc tb (Some [(''where'', PIdIn record_ids)])"

text \<open>
  The parameters of round \<open>k\<close> of the loop when it fetches all records, and the requests
  of the first \<open>n\<close> rounds.
\<close>

definition page_params :: "(string \<times> param) list \<Rightarrow> nat \<Rightarrow> (string \<times> param) list" where
  "page_params params k =
     AList.update ''limit'' (PInt 1000) (AList.update ''offset'' (PInt (1000 * int k)) params)"

definition page_requests :: "table \<Rightarrow> (string \<times> param) list \<Rightarrow> nat \<Rightarrow> request list" where
  "page_requests tb params n = map (\<lambda>k. records_request tb (page_params params k)) [0..<n]"

text \<open>
  Following the spec's words: the number of page requests for \<open>n\<close> rows over pages of size
  \<open>p\<close>, the ceiling of \<open>n / p\<close>.
\<close>

definition pages_needed :: "nat \<Rightarrow> nat \<Rightarrow> nat" where
  "pages_needed n p = (n + p - 1) div p"

subsection \<open>Table.create_linked_column\<close>

text \<open>
  The only operation here that writes. The server is a state \<open>'w\<close>: \<open>client_at w\<close> is the
  client talking to the server in state \<open>w\<close>, and \<open>after_request w req\<close> is the state a
  request leaves behind; a GET leaves the state as it is. The result is the returned
  column (\<open>None\<close> for Python's \<^verbatim>\<open>None\<close>) or the exception, the list of the requests sent,
  and the state at the end.
\<close>

record 'w server =
  client_at :: "'w \<Rightarrow> noco_db"
  after_request :: "'w \<Rightarrow> request \<Rightarrow> 'w"

definition find_column :: "string \<Rightarrow> column list \<Rightarrow> column option" where
  "find_column name cols = find (\<lambda>c. column_title c = name) cols"

definition link_payload :: "table \<Rightarrow> string \<Rightarrow> table \<Rightarrow> string \<Rightarrow> json" where
  "link_payload tb column_name target_table link_type =
     JObj [(''title'', JStr column_name), (''uidt'', JStr ''Links''),
           (''parentId'', JStr (table_id tb)), (''childId'', JStr (table_id target_table)),
           (''type'', JStr link_type)]"

definition create_request :: "table \<Rightarrow> string \<Rightarrow> table \<Rightarrow> string \<Rightarrow> request" where
  "create_request tb column_name target_table link_type =
     \<lparr>req_path = MetaTableColumns (table_id tb), req_method = POST, req_params = [],
      req_json = Some (link_payload tb column_name target_table link_type)\<rparr>"

definition create_linked_column ::
  "'w server \<Rightarrow> 'w \<Rightarrow> table \<Rightarrow> string \<Rightarrow> table \<Rightarrow> string
     \<Rightarrow> (error + column option) \<times> request list \<times> 'w" where
  "create_linked_column srv w tb column_name target_table link_type =
     (case get_columns (client_at srv w) tb False of
        Inl e \<Rightarrow> (Inl e, [columns_request tb], w)
      | Inr existing_cols \<Rightarrow>
          (case find_column column_name existing_cols of
             Some col \<Rightarrow> (Inr (Some col), [columns_request tb], w)
           | None \<Rightarrow>
               (case get_columns (client_at srv w) tb True of
                  Inl e \<Rightarrow> (Inl e, [columns_request tb, columns_request tb], w)
                | Inr self_cols \<Rightarrow>
                    (case get_columns (client_at srv w) target_table True of
                       Inl e \<Rightarrow>
                         (Inl e,
                          [columns_request tb, columns_request tb,
                           columns_request target_table], w)
                     | Inr target_cols \<Rightarrow>
                         if find_column ''Id'' self_cols = None
                            \<or> find_column ''Id'' target_cols = None
                         then
                           (Inl (Exception ''Could not find ID columns for both tables''),
                            [columns_request tb, columns_request tb,
                             columns_request target_table], w)
                         else
                           (let req = create_request tb column_name target_table link_type;
                                w' = after_request srv w req
                            in case call_noco (client_at srv w) req of
                                 Inl e \<Rightarrow>
                                   (Inl e,
                                    [columns_request tb, columns_request tb,
                                     columns_request target_table, req], w')
                               | Inr r \<Rightarrow>
                                   (case get_columns (client_at srv w') tb False of
                                      Inl e \<Rightarrow>
                                        (Inl e,
                                         [columns_request tb, columns_request tb,
                                          columns_request target_table, req,
                                          columns_request tb], w')
                                    | Inr cols \<Rightarrow>
                                        (Inr (find_column column_name cols),
                                         [columns_request tb, columns_request tb,
                                          columns_request target_table, req,
                                          columns_request tb], w')))))))"

definition creation_requests :: "request list \<Rightarrow> nat" where
  "creation_requests sent = length (filter (\<lambda>r. req_method r = POST) sent)"

text \<open>The method called twice with the same arguments, the second call on the state the first leaves.\<close>

definition create_twice ::
  "'w server \<Rightarrow> 'w \<Rightarrow> table \<Rightarrow> string \<Rightarrow> table \<Rightarrow> string
     \<Rightarrow> (error + column option) \<times> (error + column option) \<times> request list \<times> 'w" where
  "create_twice srv w tb column_name target_table link_type =
     (case create_linked_column srv w tb column_name target_table link_type of
        (first, sent, w') \<Rightarrow>
          (case create_linked_column srv w' tb column_name target_table link_type of
             (second, sent', w'') \<Rightarrow> (first, second, sent @ sent', w'')))"

section \<open>Record.get_linked_records\<close>

text \<open>
  \<^verbatim>\<open>fk_name in self.metadata and self.metadata[fk_name]\<close>: the attribute
  \<^verbatim>\<open>{column.title}_id\<close> of the attribute bag when it is there and truthy.
\<close>

definition foreign_key :: "record_obj \<Rightarrow> column \<Rightarrow> json option" where
  "foreign_key r col =
     (case map_of (metadata r) (column_title col @ ''_id'') of
        None \<Rightarrow> None
      | Some v \<Rightarrow> if truthy v then Some v else None)"

text \<open>\<^verbatim>\<open>isinstance(v, dict) and "Id" in v\<close>, and then \<^verbatim>\<open>v["Id"]\<close>.\<close>

fun dict_Id :: "json \<Rightarrow> json option" where
  "dict_Id (JObj kvs) = map_of kvs ''Id''"
| "dict_Id v = None"

text \<open>\<^verbatim>\<open>l.get("Id")\<close>: only a dict has the method.\<close>

fun get_Id :: "json \<Rightarrow> error + json" where
  "get_Id (JObj kvs) = Inr (case map_of kvs ''Id'' of None \<Rightarrow> JNull | Some v \<Rightarrow> v)"
| "get_Id v = Inl AttributeError"

text \<open>The comprehension \<^verbatim>\<open>[l.get("Id") for l in response_data["list"] if "Id" in l]\<close>.\<close>

fun list_item_ids :: "json list \<Rightarrow> error + json list" where
  "list_item_ids [] = Inr []"
| "list_item_ids (l # ls) =
     (case contains ''Id'' l of
        Inl e \<Rightarrow> Inl e
      | Inr has_id \<Rightarrow>
          if has_id then
            (case get_Id l of
               Inl e \<Rightarrow> Inl e
             | Inr v \<Rightarrow>
                 (case list_item_ids ls of Inl e \<Rightarrow> Inl e | Inr vs \<Rightarrow> Inr (v # vs)))
          else list_item_ids ls)"

text \<open>
  How the parsing of the common formats (the first \<^verbatim>\<open>if\<close> chain) ends: with the early
  \<^verbatim>\<open>return []\<close>, normally with the identifiers found, or with an exception; then
  \<open>record_ids\<close> is what had been appended before.
\<close>

datatype parse = Returned | Parsed "json list" | Raised "json list" error

text \<open>The loop \<^verbatim>\<open>for field in response_data\<close> of the last branch.\<close>

fun scan_fields :: "json \<Rightarrow> json list \<Rightarrow> json list \<Rightarrow> parse" where
  "scan_fields response_data [] record_ids = Parsed record_ids"
| "scan_fields response_data (field # fs) record_ids =
     (case getitem response_data field of
        Inl e \<Rightarrow> Raised record_ids e
      | Inr v \<Rightarrow>
          (case dict_Id v of
             None \<Rightarrow> scan_fields response_data fs record_ids
           | Some i \<Rightarrow> scan_fields response_data fs (record_ids @ [i])))"

definition common_formats :: "json \<Rightarrow> parse" where
  "common_formats response_data =
     (case contains ''list'' response_data of
        Inl e \<Rightarrow> Raised [] e
      | Inr has_list \<Rightarrow>
          if has_list then
            (case getitem response_data (JStr ''list'') of
               Inl e \<Rightarrow> Raised [] e
             | Inr l \<Rightarrow>
                 if \<not> truthy l then Returned
                 else
                   (case l of
                      JList items \<Rightarrow>
                        (case list_item_ids items of
                           Inl e \<Rightarrow> Raised [] e
                         | Inr ids \<Rightarrow> Parsed ids)
                    | _ \<Rightarrow> (case dict_Id l of None \<Rightarrow> Parsed [] | Some i \<Rightarrow> Parsed [i])))
          else
            (case contains ''Id'' response_data of
               Inl e \<Rightarrow> Raised [] e
             | Inr has_id \<Rightarrow>
                 if has_id then
                   (case getitem response_data (JStr ''Id'') of
                      Inl e \<Rightarrow> Raised [] e
                    | Inr i \<Rightarrow> Parsed [i])
                 else
                   (case iterate response_data of
                      Inl e \<Rightarrow> Raised [] e
                    | Inr keys \<Rightarrow> scan_fields response_data keys [])))"

text \<open>The more general approach: every field of the dict, a list of items or a dict.\<close>

fun value_ids :: "json \<Rightarrow> json list" where
  "value_ids (JList items) = List.map_filter dict_Id items"
| "value_ids v = (case dict_Id v of None \<Rightarrow> [] | Some i \<Rightarrow> [i])"

fun general_scan :: "json \<Rightarrow> json list" where
  "general_scan (JObj kvs) = concat (map (\<lambda>kv. value_ids (snd kv)) kvs)"
| "general_scan v = []"

text \<open>
  The inner \<^verbatim>\<open>try\<close> with its handler: from the result of \<^verbatim>\<open>r.json()\<close> and the foreign key
  of the attribute bag to \<open>record_ids\<close>; \<open>None\<close> is the early \<^verbatim>\<open>return []\<close>.
\<close>

definition or_foreign_key :: "json option \<Rightarrow> json list \<Rightarrow> json list" where
  "or_foreign_key fk record_ids = (case fk of None \<Rightarrow> record_ids | Some v \<Rightarrow> [v])"

definition gather_ids :: "error + json \<Rightarrow> json option \<Rightarrow> json list option" where
  "gather_ids parsed fk =
     (case parsed of
        Inl e \<Rightarrow> Some (or_foreign_key fk [])
      | Inr response_data \<Rightarrow>
          (case common_formats response_data of
             Returned \<Rightarrow> None
           | Raised record_ids e \<Rightarrow> Some (or_foreign_key fk record_ids)
           | Parsed found \<Rightarrow>
               (let record_ids =
                      (if found = [] \<and> isinstance_dict response_data
                       then general_scan response_data else found)
                in Some (if record_ids = [] then or_foreign_key fk [] else record_ids))))"

text \<open>
  The states in which \<open>record_ids\<close> is empty where the foreign key is consulted: the body
  did not parse, the common formats raised before an identifier was found, or neither the
  common formats nor the scan of the fields found one.
\<close>

definition no_identifiers :: "error + json \<Rightarrow> bool" where
  "no_identifiers parsed =
     (case parsed of
        Inl e \<Rightarrow> True
      | Inr response_data \<Rightarrow>
          (case common_formats response_data of
             Returned \<Rightarrow> False
           | Raised record_ids e \<Rightarrow> record_ids = []
           | Parsed found \<Rightarrow> found = [] \<and> general_scan response_data = []))"

text \<open>\<^verbatim>\<open>[int(id) for id in record_ids if id is not None]\<close>.\<close>

fun int_ids :: "json list \<Rightarrow> error + int list" where
  "int_ids [] = Inr []"
| "int_ids (v # vs) =
     (if v = JNull then int_ids vs
      else
        (case py_int v of
           Inl e \<Rightarrow> Inl e
         | Inr n \<Rightarrow> (case int_ids vs of Inl e \<Rightarrow> Inl e | Inr ns \<Rightarrow> Inr (n # ns))))"

text \<open>Whether \<^verbatim>\<open>int\<close> accepts a value, and the integer it gives then.\<close>

definition coercible :: "json \<Rightarrow> bool" where
  "coercible v = (case py_int v of Inl e \<Rightarrow> False | Inr n \<Rightarrow> True)"

definition coerced :: "json \<Rightarrow> int" where
  "coerced v = (case py_int v of Inl e \<Rightarrow> 0 | Inr n \<Rightarrow> n)"

text \<open>The linked table: by the column's \<^verbatim>\<open>linked_table_id\<close>, or by title.\<close>

definition find_table :: "string \<Rightarrow> table list \<Rightarrow> table option" where
  "find_table name ts = find (\<lambda>t. table_title t = name) ts"

definition endswith_s :: "string \<Rightarrow> bool" where
  "endswith_s name = (name \<noteq> [] \<and> last name = CHR ''s'')"

definition not_determined :: "column \<Rightarrow> error" where
  "not_determined col =
     Exception (''Could not determine linked table for column '' @ column_title col)"

definition not_found :: "column \<Rightarrow> error" where
  "not_found col = Exception (''Could not find linked table: '' @ column_title col)"

definition linked_table :: "noco_db \<Rightarrow> record_obj \<Rightarrow> column \<Rightarrow> error + table" where
  "linked_table nc r col =
     (case linked_table_id col of
        Some i \<Rightarrow> get_table nc i
      | None \<Rightarrow>
          (case get_base nc (base_id (record_table r)) of
             Inl e \<Rightarrow> Inl e
           | Inr b \<Rightarrow>
               (case get_tables nc b of
                  Inl e \<Rightarrow> Inl e
                | Inr ts \<Rightarrow>
                    (case find_table (column_title col) ts of
                       Some t \<Rightarrow> Inr t
                     | None \<Rightarrow>
                         if endswith_s (column_title col) then
                           (case get_tables nc b of
                              Inl e \<Rightarrow> Inl e
                            | Inr ts' \<Rightarrow>
                                (case find_table (butlast (column_title col)) ts' of
                                   Some t \<Rightarrow> Inr t
                                 | None \<Rightarrow> Inl (not_determined col)))
                         else Inl (not_determined col)))))"

definition link_request :: "record_obj \<Rightarrow> column \<Rightarrow> request" where
  "link_request r col =
     \<lparr>req_path = TableLinks (table_id (record_table r)) (column_id col) (record_id r),
      req_method = GET, req_params = [], req_json = None\<rparr>"

text \<open>\<open>record_ids\<close> after the coercion, from the response; \<open>None\<close> is the early return.\<close>

definition response_ids :: "response \<Rightarrow> record_obj \<Rightarrow> column \<Rightarrow> (error + int list) option" where
  "response_ids resp r col =
     (case gather_ids (json_of resp) (foreign_key r col) of
        None \<Rightarrow> None
      | Some record_ids \<Rightarrow> Some (int_ids record_ids))"

text \<open>The body of the outer \<^verbatim>\<open>try\<close>.\<close>

definition linked_records_try ::
  "noco_db \<Rightarrow> record_obj \<Rightarrow> column \<Rightarrow> (error + record_obj list) option" where
  "linked_records_try nc r col =
     (case call_noco nc (link_request r col) of
        Inl e \<Rightarrow> Some (Inl e)
      | Inr resp \<Rightarrow>
          (case response_ids resp r col of
             None \<Rightarrow> Some (Inr [])
           | Some (Inl e) \<Rightarrow> Some (Inl e)
           | Some (Inr record_ids) \<Rightarrow>
               if record_ids = [] then Some (Inr [])
               else
                 (case linked_table nc r col of
                    Inl e \<Rightarrow> Some (Inl e)
                  | Inr t \<Rightarrow> map_option snd (get_records_by_id nc t (map JInt record_ids)))))"

text \<open>The handler of the outer \<^verbatim>\<open>try\<close>, for the exception \<open>e\<close>.\<close>

definition linked_records_except ::
  "noco_db \<Rightarrow> record_obj \<Rightarrow> column \<Rightarrow> error \<Rightarrow> (error + record_obj list) option" where
  "linked_records_except nc r col e =
     (case foreign_key r col of
        None \<Rightarrow> Some (Inl e)
      | Some fk \<Rightarrow>
          (case get_base nc (base_id (record_table r)) of
             Inl e' \<Rightarrow> Some (Inl e')
           | Inr b \<Rightarrow>
               (case get_tables nc b of
                  Inl e' \<Rightarrow> Some (Inl e')
                | Inr ts \<Rightarrow>
                    (case find_table (column_title col) ts of
                       None \<Rightarrow> Some (Inl (not_found col))
                     | Some t \<Rightarrow> map_option snd (get_records_by_id nc t [fk])))))"

definition get_linked_records ::
  "noco_db \<Rightarrow> record_obj \<Rightarrow> column \<Rightarrow> (error + record_obj list) option" where
  "get_linked_records nc r col =
     (case linked_records_try nc r col of
        None \<Rightarrow> None
      | Some (Inl e) \<Rightarrow> linked_records_except nc r col e
      | Some (Inr records) \<Rightarrow> Some (Inr records))"

section \<open>Example servers\<close>

text \<open>
  Concrete clients and servers, for the evaluations and for the statements about a server
  that pages as the spec describes.
\<close>

definition titled :: "string \<Rightarrow> table" where
  "titled s = \<lparr>table_id = s, table_title = s, base_id = ''b''\<rparr>"

text \<open>
  Modelled from the spec: the constructor of Column (Column.py is not among the sources).
  A Column has an identifier, a title and a system flag; they are read from the entries
  \<^verbatim>\<open>id\<close>, \<^verbatim>\<open>title\<close> and \<^verbatim>\<open>system\<close> of a column of the table's metadata.
\<close>

definition example_Column :: "json \<Rightarrow> error + column" where
  "example_Column f =
     (case f of
        JObj kvs \<Rightarrow>
          (case (map_of kvs ''id'', map_of kvs ''title'', map_of kvs ''system'') of
             (Some (JStr i), Some (JStr t), Some s) \<Rightarrow>
               Inr \<lparr>column_id = i, column_title = t, system = truthy s, linked_table_id = None\<rparr>
           | _ \<Rightarrow> Inl KeyError)
      | _ \<Rightarrow> Inl TypeError)"

definition example_client ::
  "(request \<Rightarrow> error + response) \<Rightarrow> (string \<Rightarrow> error + table) \<Rightarrow> table list \<Rightarrow> noco_db" where
  "example_client call lookup ts =
     \<lparr>call_noco = call, get_table = lookup, get_base = (\<lambda>i. Inr \<lparr>base_ident = i\<rparr>),
      get_tables = (\<lambda>b. Inr ts), new_Column = example_Column\<rparr>"

definition offline :: "request \<Rightarrow> error + response" where
  "offline req = Inl (TransportError ''offline'')"

definition down :: "error + response" where
  "down = Inl (TransportError ''offline'')"

definition no_table :: "string \<Rightarrow> error + table" where
  "no_table i = Inl (Exception ''no such table'')"

definition base_with :: "table list \<Rightarrow> noco_db" where
  "base_with ts = example_client offline no_table ts"

text \<open>
  Modelled from the spec: the list endpoint of the server (the transport and the server are
  not among the sources). It answers \<^verbatim>\<open>{"list": rows, "pageInfo": {"isLastPage": flag}}\<close>
  with the rows from \<open>offset\<close> on, at most \<open>limit\<close> of them, among those the filter on Id
  selects, and reports the last page when no row lies beyond.
\<close>

definition row :: "int \<Rightarrow> json" where
  "row i = JObj [(''Id'', JInt i)]"

definition list_page :: "json list \<Rightarrow> bool \<Rightarrow> response" where
  "list_page rows last_page =
     Response (Some (JObj [(''list'', JList rows),
                           (''pageInfo'', JObj [(''isLastPage'', JBool last_page)])]))"

definition selected :: "(string \<times> param) list \<Rightarrow> json list \<Rightarrow> json list" where
  "selected params rows =
     (case map_of params ''where'' of
        Some (PIdIn ids) \<Rightarrow>
          filter (\<lambda>r. case dict_Id r of None \<Rightarrow> False | Some i \<Rightarrow> i \<in> set ids) rows
      | _ \<Rightarrow> rows)"

definition list_endpoint :: "json list \<Rightarrow> request \<Rightarrow> error + response" where
  "list_endpoint rows req =
     (case (map_of (req_params req) ''offset'', map_of (req_params req) ''limit'') of
        (Some (PInt off), Some (PInt lim)) \<Rightarrow>
          Inr (list_page (take (nat lim) (drop (nat off) (selected (req_params req) rows)))
                 (int (length (selected (req_params req) rows)) \<le> off + lim))
      | _ \<Rightarrow> Inl (TransportError ''offset and limit expected''))"

definition list_server :: "json list \<Rightarrow> noco_db" where
  "list_server rows = example_client (list_endpoint rows) no_table []"

definition record_of :: "table \<Rightarrow> int \<Rightarrow> record_obj" where
  "record_of tb i = \<lparr>record_table = tb, record_id = JInt i, metadata = [(''Id'', JInt i)]\<rparr>"

text \<open>
  Two servers that do not page like that: one sends a short page, an empty page and then
  the last page, the other never reports the last page.
\<close>

definition sparse_endpoint :: "request \<Rightarrow> error + response" where
  "sparse_endpoint req =
     (case map_of (req_params req) ''offset'' of
        Some (PInt off) \<Rightarrow>
          if off = 0 then Inr (list_page [row 1] False)
          else if off = 1000 then Inr (list_page [] False)
          else if off = 2000 then Inr (list_page [row 2] True)
          else Inl (TransportError ''no such page'')
      | _ \<Rightarrow> Inl (TransportError ''offset expected''))"

definition endless_endpoint :: "request \<Rightarrow> error + response" where
  "endless_endpoint req = Inr (list_page [] False)"

definition endless_server :: noco_db where
  "endless_server = example_client endless_endpoint no_table []"

definition sparse_server :: noco_db where
  "sparse_server = example_client sparse_endpoint no_table []"

text \<open>
  Servers for the columns of a table; their state is the list of the column entries. One
  shows a created column at once, the other does not show it.
\<close>

definition column_entry :: "string \<Rightarrow> bool \<Rightarrow> json" where
  "column_entry t s =
     JObj [(''id'', JStr (''c_'' @ t)), (''title'', JStr t), (''system'', JBool s)]"

definition columns_client :: "json list \<Rightarrow> noco_db" where
  "columns_client w =
     example_client
       (\<lambda>req. case req_path req of
                 MetaTable t \<Rightarrow> Inr (Response (Some (JObj [(''columns'', JList w)])))
               | MetaTableColumns t \<Rightarrow> Inr (Response (Some (JObj [])))
               | _ \<Rightarrow> offline req)
       no_table []"

definition created_entry :: "request \<Rightarrow> json list" where
  "created_entry req =
     (case req_json req of
        Some (JObj kvs) \<Rightarrow>
          (case map_of kvs ''title'' of Some (JStr t) \<Rightarrow> [column_entry t False] | _ \<Rightarrow> [])
      | _ \<Rightarrow> [])"

definition eager_server :: "json list server" where
  "eager_server =
     \<lparr>client_at = columns_client,
      after_request = (\<lambda>w req. if req_method req = POST then w @ created_entry req else w)\<rparr>"

definition lagging_server :: "json list server" where
  "lagging_server = \<lparr>client_at = columns_client, after_request = (\<lambda>w req. w)\<rparr>"

text \<open>
  A client for get_linked_records: the answer of the link endpoint, the list endpoint of
  every table by its identifier, and the tables of the base.
\<close>

definition lookup_table :: "table list \<Rightarrow> string \<Rightarrow> error + table" where
  "lookup_table ts i =
     (case find (\<lambda>t. table_id t = i) ts of
        None \<Rightarrow> Inl (Exception ''no such table'')
      | Some t \<Rightarrow> Inr t)"

definition link_server ::
  "error + response \<Rightarrow> (string \<Rightarrow> request \<Rightarrow> error + response) \<Rightarrow> table list \<Rightarrow> noco_db" where
  "link_server links records ts =
     example_client
       (\<lambda>req. case req_path req of
                 TableLinks t c i \<Rightarrow> links
               | TableRecords t \<Rightarrow> records t req
               | _ \<Rightarrow> offline req)
       (lookup_table ts) ts"

definition customer :: "(string \<times> json) list \<Rightarrow> record_obj" where
  "customer extra =
     \<lparr>record_table = titled ''Customers'', record_id = JInt 1,
      metadata = (''Id'', JInt 1) # extra\<rparr>"

definition link_column :: "string \<Rightarrow> string option \<Rightarrow> column" where
  "link_column t l = \<lparr>column_id = ''c1'', column_title = t, system = False, linked_table_id = l\<rparr>"

definition body :: "json \<Rightarrow> error + response" where
  "body v = Inr (Response (Some v))"


section \<open>Table.get_duplicates: the number of a duplicate\<close>

lemma takeWhile_digit_space: "takeWhile is_digit (cs @ CHR '' '' # r) = takeWhile is_digit cs"
  by (induction cs) (auto simp: is_digit_def)

lemma first_nr_append: "first_nr s = Some ds \<Longrightarrow> first_nr (s @ CHR '' '' # r) = Some ds"
  by (induction s) (auto simp: takeWhile_digit_space split: if_splits)

lemma duplicate_nr_append:
  "first_nr s = Some ds \<Longrightarrow> duplicate_nr (s @ CHR '' '' # r) = int_of_digits ds"
  by (simp add: duplicate_nr_def first_nr_append)

lemma chomp_cases: "s = chomp s \<or> s = chomp s @ [CHR 0x0A]"
  by (cases s rule: rev_cases) (auto simp: chomp_def)

lemma copy_match_prefix:
  assumes "copy_match title s"
  shows "\<exists>r. s = title @ CHR '' '' # r"
proof -
  from assms have "take (length (title @ '' copy'')) (chomp s) = title @ '' copy''"
    by (simp add: copy_match_def Let_def)
  then have "chomp s = (title @ '' copy'') @ drop (length (title @ '' copy'')) (chomp s)"
    by (metis append_take_drop_id)
  then obtain r where c: "chomp s = title @ CHR '' '' # r"
    by auto
  from chomp_cases [of s] show ?thesis
  proof
    assume "s = chomp s"
    with c show ?thesis by metis
  next
    assume "s = chomp s @ [CHR 0x0A]"
    with c have "s = title @ CHR '' '' # (r @ [CHR 0x0A])" by simp
    then show ?thesis by blast
  qed
qed

lemma copy_match_nr:
  "first_nr title = Some ds \<Longrightarrow> copy_match title s \<Longrightarrow> duplicate_nr s = int_of_digits ds"
  using copy_match_prefix duplicate_nr_append by blast

lemma foldl_add_duplicate_one_key:
  assumes "\<And>t. t \<in> set ts \<Longrightarrow> copy_match title (table_title t) \<Longrightarrow> duplicate_nr (table_title t) = k"
  shows "foldl (add_duplicate title) d ts =
         (case filter (\<lambda>t. copy_match title (table_title t)) ts of
            [] \<Rightarrow> d
          | m # ms \<Rightarrow> AList.update k (last (m # ms)) d)"
  using assms
proof (induction ts arbitrary: d)
  case Nil
  then show ?case by simp
next
  case (Cons t ts)
  show ?case
  proof (cases "copy_match title (table_title t)")
    case False
    with Cons show ?thesis by (simp add: add_duplicate_def)
  next
    case True
    with Cons.prems have k: "duplicate_nr (table_title t) = k" by simp
    have "foldl (add_duplicate title) (AList.update k t d) ts =
          (case filter (\<lambda>t. copy_match title (table_title t)) ts of
             [] \<Rightarrow> AList.update k t d
           | m # ms \<Rightarrow> AList.update k (last (m # ms)) (AList.update k t d))"
      using Cons.IH [of "AList.update k t d"] Cons.prems by simp
    moreover have "add_duplicate title d t = AList.update k t d"
      using True k by (simp add: add_duplicate_def)
    ultimately show ?thesis
      using True by (simp split: list.splits)
  qed
qed

text \<open>
  C9. The claim: get_duplicates returns exactly the tables titled "<title> copy" or
  "<title> copy_<n>", by descending n, a title without number counting as 0. On the
  spec's example (Orders) the code does so. For the table "Report_2" with the duplicates
  "Report_2 copy" and "Report_2 copy_1" it returns "Report_2 copy_1" alone: the number is
  taken from the first underscore-digit group of the whole title, here the 2 of the
  table's own title, so both duplicates get the key 2 and the later replaces the earlier.
\<close>

theorem get_duplicates_examples:
  "regex_literal ''Orders'' \<and> regex_literal ''Report_2''
   \<and> get_duplicates
     (base_with [titled ''Orders copy'', titled ''Orders copy_2'', titled ''Orders copy_1''])
     (titled ''Orders'')
   = Inr [titled ''Orders copy_2'', titled ''Orders copy_1'', titled ''Orders copy'']
   \<and> get_duplicates (base_with [titled ''Report_2 copy'', titled ''Report_2 copy_1''])
       (titled ''Report_2'')
     = Inr [titled ''Report_2 copy_1'']"
  by code_simp

text \<open>
  C10. The number of a duplicate is the first underscore-digit group of its whole title.
  When the table's own title has such a group \<open>ds\<close>, the duplicate "<title> copy" has the
  number of \<open>ds\<close> and not 0, and so has every "<title> copy_<n>": all duplicates share one
  key, each replaces the one before, and get_duplicates returns at most one table, the
  last duplicate in the order of the base.
\<close>

theorem get_duplicates_key_from_title:
  assumes "regex_literal (table_title tb)"
    and "first_nr (table_title tb) = Some ds"
    and "get_base nc (base_id tb) = Inr b"
    and "get_tables nc b = Inr ts"
  shows "duplicate_nr (table_title tb @ '' copy'') = int_of_digits ds
       \<and> duplicate_nr (table_title tb @ '' copy_'' @ n) = int_of_digits ds
       \<and> get_duplicates nc tb =
           Inr (case filter (\<lambda>t. copy_match (table_title tb) (table_title t)) ts of
                  [] \<Rightarrow> []
                | m # ms \<Rightarrow> [last (m # ms)])"
proof -
  have a: "duplicate_nr (table_title tb @ '' copy'') = int_of_digits ds"
    using duplicate_nr_append [OF assms(2), of "''copy''"] by simp
  have b: "duplicate_nr (table_title tb @ '' copy_'' @ n) = int_of_digits ds"
    using duplicate_nr_append [OF assms(2), of "''copy_'' @ n"] by simp
  have "foldl (add_duplicate (table_title tb)) [] ts =
        (case filter (\<lambda>t. copy_match (table_title tb) (table_title t)) ts of
           [] \<Rightarrow> []
         | m # ms \<Rightarrow> AList.update (int_of_digits ds) (last (m # ms)) [])"
    by (rule foldl_add_duplicate_one_key) (simp add: copy_match_nr [OF assms(2)])
  then have c: "get_duplicates nc tb =
           Inr (case filter (\<lambda>t. copy_match (table_title tb) (table_title t)) ts of
                  [] \<Rightarrow> []
                | m # ms \<Rightarrow> [last (m # ms)])"
    using assms(3,4) by (simp add: get_duplicates_def split: list.splits)
  from a b c show ?thesis by blast
qed

theorem get_duplicates_key_from_title_witness:
  "regex_literal ''Report_2'' \<and> first_nr ''Report_2'' = Some ''2''
   \<and> duplicate_nr ''Report_2 copy'' = 2
   \<and> duplicate_nr ''Report_2 copy_2'' = 2
   \<and> get_duplicates (base_with [titled ''Report_2 copy_2'', titled ''Report_2 copy''])
        (titled ''Report_2'') = Inr [titled ''Report_2 copy'']"
proof -
  have l: "regex_literal (table_title (titled ''Report_2''))" by code_simp
  have f: "first_nr (table_title (titled ''Report_2'')) = Some ''2''" by code_simp
  have gb: "get_base (base_with [titled ''Report_2 copy_2'', titled ''Report_2 copy''])
              (base_id (titled ''Report_2'')) = Inr \<lparr>base_ident = ''b''\<rparr>"
    by (simp add: base_with_def example_client_def titled_def)
  have gt: "get_tables (base_with [titled ''Report_2 copy_2'', titled ''Report_2 copy''])
              \<lparr>base_ident = ''b''\<rparr> = Inr [titled ''Report_2 copy_2'', titled ''Report_2 copy'']"
    by (simp add: base_with_def example_client_def)
  have m1: "copy_match ''Report_2'' ''Report_2 copy_2''" by code_simp
  have m2: "copy_match ''Report_2'' ''Report_2 copy''" by code_simp
  have d: "int_of_digits ''2'' = 2" by code_simp
  have l': "regex_literal ''Report_2''" by code_simp
  have f': "first_nr ''Report_2'' = Some ''2''" by code_simp
  from get_duplicates_key_from_title [OF l f gb gt, of "''2''"] m1 m2 d l' f'
  show ?thesis by (simp add: titled_def)
qed

section \<open>Record.get_linked_records: the identifiers\<close>

lemma list_item_ids_dicts:
  "\<forall>item \<in> set items. isinstance_dict item
   \<Longrightarrow> list_item_ids items = Inr (List.map_filter dict_Id items)"
proof (induction items)
  case Nil
  then show ?case by (simp add: List.map_filter_simps)
next
  case (Cons item items)
  then obtain kvs where item: "item = JObj kvs"
    by (cases item) auto
  from Cons have rest: "list_item_ids items = Inr (List.map_filter dict_Id items)"
    by simp
  show ?case
  proof (cases "map_of kvs ''Id''")
    case None
    then have "''Id'' \<notin> set (map fst kvs)"
      by (simp add: map_of_eq_None_iff)
    with None item rest show ?thesis
      by (simp add: List.map_filter_simps)
  next
    case (Some v)
    then have "''Id'' \<in> set (map fst kvs)"
      by (metis map_of_eq_None_iff option.distinct(1) set_map)
    with Some item rest show ?thesis
      by (simp add: List.map_filter_simps)
  qed
qed

lemma int_ids_ints: "int_ids (map JInt ids) = Inr ids"
  by (induction ids) simp_all

lemma common_formats_list:
  assumes "map_of kvs ''list'' = Some (JList items)" and "items \<noteq> []"
    and "\<forall>item \<in> set items. isinstance_dict item"
  shows "common_formats (JObj kvs) = Parsed (List.map_filter dict_Id items)"
proof -
  from assms(1) have "''list'' \<in> set (map fst kvs)"
    by (metis map_of_eq_None_iff option.distinct(1) set_map)
  with assms show ?thesis
    by (simp add: common_formats_def list_item_ids_dicts)
qed

lemma common_formats_Id:
  assumes "map_of kvs ''list'' = None" and "map_of kvs ''Id'' = Some v"
  shows "common_formats (JObj kvs) = Parsed [v]"
proof -
  from assms(1) have "''list'' \<notin> set (map fst kvs)"
    by (simp add: map_of_eq_None_iff)
  moreover from assms(2) have "''Id'' \<in> set (map fst kvs)"
    by (metis map_of_eq_None_iff option.distinct(1) set_map)
  ultimately show ?thesis
    using assms(2) by (simp add: common_formats_def)
qed

lemma response_ids_found:
  "common_formats response_data = Parsed found \<Longrightarrow> found \<noteq> []
   \<Longrightarrow> response_ids (Response (Some response_data)) r col = Some (int_ids found)"
  by (simp add: response_ids_def gather_ids_def)

lemma response_ids_unparseable:
  "map_of (metadata r) (column_title col @ ''_id'') = Some v \<Longrightarrow> truthy v
   \<Longrightarrow> response_ids (Response None) r col = Some (int_ids [v])"
  by (simp add: response_ids_def gather_ids_def foreign_key_def or_foreign_key_def)

text \<open>
  C2. The identifiers read from the response of the link endpoint, by its shape. A "list"
  field that is a non-empty array of objects gives the Id of each element that has one,
  in order, and nothing from the other fields of the body. A body without "list" and with
  a top-level Id gives that Id alone. A body that does not parse gives the attribute
  "<column title>_id" of the record when it is there and truthy. In each case the values
  then go through the coercion. In particular {"list": [{"Id": 3}, {"Id": 5}]} gives 3
  and 5, {"Id": 7} gives 7, and an unparseable body with the attribute 9 gives 9.
\<close>

theorem response_ids_by_shape:
  "(map_of kvs ''list'' = Some (JList items) \<and> items \<noteq> []
      \<and> (\<forall>item \<in> set items. isinstance_dict item)
      \<longrightarrow> common_formats (JObj kvs) = Parsed (List.map_filter dict_Id items)
          \<and> (List.map_filter dict_Id items \<noteq> []
               \<longrightarrow> response_ids (Response (Some (JObj kvs))) r col
                     = Some (int_ids (List.map_filter dict_Id items))))
   \<and> (ids \<noteq> []
      \<longrightarrow> response_ids
            (Response (Some (JObj ((''list'', JList (map (\<lambda>i. JObj [(''Id'', JInt i)]) ids))
                                    # others)))) r col
          = Some (Inr ids))
   \<and> (map_of kvs ''list'' = None \<and> map_of kvs ''Id'' = Some v
      \<longrightarrow> common_formats (JObj kvs) = Parsed [v]
          \<and> response_ids (Response (Some (JObj kvs))) r col = Some (int_ids [v]))
   \<and> (map_of kvs ''list'' = None \<and> map_of kvs ''Id'' = Some (JInt i)
      \<longrightarrow> response_ids (Response (Some (JObj kvs))) r col = Some (Inr [i]))
   \<and> (map_of (metadata r) (column_title col @ ''_id'') = Some v \<and> truthy v
      \<longrightarrow> response_ids (Response None) r col = Some (int_ids [v]))
   \<and> (map_of (metadata r) (column_title col @ ''_id'') = Some (JInt n) \<and> n \<noteq> 0
      \<longrightarrow> response_ids (Response None) r col = Some (Inr [n]))
   \<and> response_ids
       (Response (Some (JObj [(''list'', JList [JObj [(''Id'', JInt 3)], JObj [(''Id'', JInt 5)]])])))
       r col = Some (Inr [3, 5])
   \<and> response_ids (Response (Some (JObj [(''Id'', JInt 7)]))) r col = Some (Inr [7])
   \<and> (map_of (metadata r) (column_title col @ ''_id'') = Some (JInt 9)
        \<longrightarrow> response_ids (Response None) r col = Some (Inr [9]))"
proof (intro conjI impI)
  assume a: "map_of kvs ''list'' = Some (JList items) \<and> items \<noteq> []
      \<and> (\<forall>item \<in> set items. isinstance_dict item)"
  then show c: "common_formats (JObj kvs) = Parsed (List.map_filter dict_Id items)"
    by (simp add: common_formats_list)
  assume "List.map_filter dict_Id items \<noteq> []"
  with c show "response_ids (Response (Some (JObj kvs))) r col
                     = Some (int_ids (List.map_filter dict_Id items))"
    by (rule response_ids_found)
next
  assume ne: "ids \<noteq> []"
  let ?items = "map (\<lambda>i. JObj [(''Id'', JInt i)]) ids"
  let ?kvs = "(''list'', JList ?items) # others"
  have m: "List.map_filter dict_Id ?items = map JInt ids"
    by (induction ids) (simp_all add: List.map_filter_simps)
  have "common_formats (JObj ?kvs) = Parsed (List.map_filter dict_Id ?items)"
    using ne by (intro common_formats_list) auto
  then have "response_ids (Response (Some (JObj ?kvs))) r col = Some (int_ids (map JInt ids))"
    using ne by (simp add: m response_ids_found)
  then show "response_ids (Response (Some (JObj ?kvs))) r col = Some (Inr ids)"
    by (simp add: int_ids_ints)
next
  assume a: "map_of kvs ''list'' = None \<and> map_of kvs ''Id'' = Some v"
  then show c: "common_formats (JObj kvs) = Parsed [v]"
    by (simp add: common_formats_Id)
  then show "response_ids (Response (Some (JObj kvs))) r col = Some (int_ids [v])"
    by (rule response_ids_found) simp
next
  assume a: "map_of kvs ''list'' = None \<and> map_of kvs ''Id'' = Some (JInt i)"
  then have "common_formats (JObj kvs) = Parsed [JInt i]"
    by (simp add: common_formats_Id)
  then have "response_ids (Response (Some (JObj kvs))) r col = Some (int_ids [JInt i])"
    by (rule response_ids_found) simp
  then show "response_ids (Response (Some (JObj kvs))) r col = Some (Inr [i])"
    by simp
next
  assume "map_of (metadata r) (column_title col @ ''_id'') = Some v \<and> truthy v"
  then show "response_ids (Response None) r col = Some (int_ids [v])"
    by (simp add: response_ids_unparseable)
next
  assume "map_of (metadata r) (column_title col @ ''_id'') = Some (JInt n) \<and> n \<noteq> 0"
  then have "response_ids (Response None) r col = Some (int_ids [JInt n])"
    by (intro response_ids_unparseable) simp_all
  then show "response_ids (Response None) r col = Some (Inr [n])"
    by simp
next
  have "common_formats (JObj [(''list'', JList [JObj [(''Id'', JInt 3)], JObj [(''Id'', JInt 5)]])])
        = Parsed [JInt 3, JInt 5]"
    by (simp add: common_formats_def)
  then show "response_ids
     (Response (Some (JObj [(''list'', JList [JObj [(''Id'', JInt 3)], JObj [(''Id'', JInt 5)]])])))
     r col = Some (Inr [3, 5])"
    by (simp add: response_ids_def gather_ids_def)
next
  have "common_formats (JObj [(''Id'', JInt 7)]) = Parsed [JInt 7]"
    by (simp add: common_formats_def)
  then show "response_ids (Response (Some (JObj [(''Id'', JInt 7)]))) r col = Some (Inr [7])"
    by (simp add: response_ids_def gather_ids_def)
next
  assume "map_of (metadata r) (column_title col @ ''_id'') = Some (JInt 9)"
  then have "response_ids (Response None) r col = Some (int_ids [JInt 9])"
    by (intro response_ids_unparseable) simp_all
  then show "response_ids (Response None) r col = Some (Inr [9])"
    by simp
qed


text \<open>
  A list with an element without Id and a body with a second field that holds an Id; a
  top-level Id after another field; an unparseable body.
\<close>

theorem response_ids_by_shape_witness:
  "response_ids
     (Response (Some (JObj [(''list'', JList [JObj [(''Id'', JInt 3)], JObj [(''Name'', JStr ''x'')],
                                              JObj [(''Id'', JInt 5)]]),
                            (''next'', JObj [(''Id'', JInt 99)])])))
     (customer []) (link_column ''Orders'' None) = Some (Inr [3, 5])
   \<and> response_ids
       (Response (Some (JObj [(''list'', JList (map (\<lambda>i. JObj [(''Id'', JInt i)]) [3, 5]))])))
       (customer []) (link_column ''Orders'' None) = Some (Inr [3, 5])
   \<and> response_ids (Response (Some (JObj [(''Name'', JStr ''x''), (''Id'', JInt 7)]))) (customer [])
       (link_column ''Orders'' None) = Some (Inr [7])
   \<and> response_ids (Response None) (customer [(''Orders_id'', JInt 9)])
       (link_column ''Orders'' None) = Some (Inr [9])"
proof -
  let ?items = "[JObj [(''Id'', JInt 3)], JObj [(''Name'', JStr ''x'')], JObj [(''Id'', JInt 5)]]"
  let ?kvs = "[(''list'', JList ?items), (''next'', JObj [(''Id'', JInt 99)])]"
  let ?r = "customer []"
  let ?col = "link_column ''Orders'' None"
  have h1: "map_of ?kvs ''list'' = Some (JList ?items) \<and> ?items \<noteq> []
            \<and> (\<forall>item \<in> set ?items. isinstance_dict item)"
    by simp
  have m: "List.map_filter dict_Id ?items = [JInt 3, JInt 5]"
    by (simp add: List.map_filter_simps)
  from response_ids_by_shape [where kvs = ?kvs and items = ?items and r = ?r and col = ?col] h1 m
  have "response_ids (Response (Some (JObj ?kvs))) ?r ?col = Some (int_ids [JInt 3, JInt 5])"
    by simp
  then have 1: "response_ids (Response (Some (JObj ?kvs))) ?r ?col = Some (Inr [3, 5])"
    by simp
  have ne: "[3, 5 :: int] \<noteq> []"
    by simp
  from response_ids_by_shape [where ids = "[3, 5]" and r = ?r and col = ?col and others = "[]"] ne
  have 2: "response_ids
       (Response (Some (JObj [(''list'', JList (map (\<lambda>i. JObj [(''Id'', JInt i)]) [3, 5]))])))
       ?r ?col = Some (Inr [3, 5])"
    by blast
  have h3: "map_of [(''Name'', JStr ''x''), (''Id'', JInt 7)] ''list'' = None
            \<and> map_of [(''Name'', JStr ''x''), (''Id'', JInt 7)] ''Id'' = Some (JInt 7)"
    by simp
  from response_ids_by_shape
    [where kvs = "[(''Name'', JStr ''x''), (''Id'', JInt 7)]" and r = ?r and col = ?col and i = 7]
    h3
  have 3: "response_ids (Response (Some (JObj [(''Name'', JStr ''x''), (''Id'', JInt 7)]))) ?r ?col
           = Some (Inr [7])"
    by blast
  have h4: "map_of (metadata (customer [(''Orders_id'', JInt 9)])) (column_title ?col @ ''_id'')
            = Some (JInt 9)"
    by (simp add: customer_def link_column_def)
  from response_ids_by_shape [where r = "customer [(''Orders_id'', JInt 9)]" and col = ?col] h4
  have 4: "response_ids (Response None) (customer [(''Orders_id'', JInt 9)]) ?col = Some (Inr [9])"
    by blast
  from 1 2 3 4 show ?thesis by blast
qed

lemma gather_no_identifiers:
  "no_identifiers parsed \<Longrightarrow> gather_ids parsed fk = Some (or_foreign_key fk [])"
  by (auto simp: no_identifiers_def gather_ids_def split: sum.splits parse.splits)

lemma foreign_key_Some:
  "map_of (metadata r) (column_title col @ ''_id'') = Some v \<Longrightarrow> truthy v
   \<Longrightarrow> foreign_key r col = Some v"
  by (simp add: foreign_key_def)

text \<open>
  C3, as the claim states it, fails: a body whose "list" field is an empty array makes
  the method return the empty list at once, and the attribute Orders_id = 9 of the record
  is not looked at. A "list" field with an element that has no Id does fall through to
  the attribute.
\<close>

theorem empty_list_returns_at_once:
  "foreign_key (customer [(''Orders_id'', JInt 9)]) (link_column ''Orders'' None) = Some (JInt 9)
   \<and> gather_ids (Inr (JObj [(''list'', JList [])])) (Some (JInt 9)) = None
   \<and> get_linked_records
       (link_server (body (JObj [(''list'', JList [])])) (\<lambda>t. list_endpoint [row 9])
          [titled ''Orders''])
       (customer [(''Orders_id'', JInt 9)]) (link_column ''Orders'' None) = Some (Inr [])
   \<and> get_linked_records
       (link_server (body (JObj [(''list'', JList [JObj []])])) (\<lambda>t. list_endpoint [row 9])
          [titled ''Orders''])
       (customer [(''Orders_id'', JInt 9)]) (link_column ''Orders'' None)
     = Some (Inr [\<lparr>record_table = titled ''Orders'', record_id = JInt 9,
                    metadata = [(''Id'', JInt 9)]\<rparr>])"
  by code_simp

text \<open>
  C3, amended: the method after the link endpoint has answered. When the body has a
  "list" field that is falsy (an empty array among others), the method returns the empty
  list at once, whatever the attribute bag holds. Otherwise, whenever stage 1 yields no
  identifiers (the body does not parse, or parsing raises before an identifier was found,
  or both scans find none), the attribute \<^verbatim>\<open>{column.title}_id\<close> of the record, if present
  and truthy, is the sole identifier: it alone is coerced and fetched from the linked
  table, and the records fetched are the result of the call; without the attribute the
  call returns the empty list.
\<close>

theorem foreign_key_fallback:
  assumes "call_noco nc (link_request r col) = Inr resp"
  shows "(json_of resp = Inr response_data \<and> contains ''list'' response_data = Inr True
            \<and> getitem response_data (JStr ''list'') = Inr l \<and> \<not> truthy l
          \<longrightarrow> get_linked_records nc r col = Some (Inr []))
       \<and> (foreign_key r col = None \<longleftrightarrow>
            (case map_of (metadata r) (column_title col @ ''_id'') of
               None \<Rightarrow> True
             | Some v \<Rightarrow> \<not> truthy v))
       \<and> (no_identifiers (json_of resp)
            \<and> map_of (metadata r) (column_title col @ ''_id'') = Some v \<and> truthy v
          \<longrightarrow> response_ids resp r col = Some (int_ids [v]))
       \<and> (no_identifiers (json_of resp)
            \<and> map_of (metadata r) (column_title col @ ''_id'') = Some v \<and> truthy v
            \<and> py_int v = Inr n \<and> linked_table nc r col = Inr t
          \<longrightarrow> linked_records_try nc r col = map_option snd (get_records_by_id nc t [JInt n]))
       \<and> (no_identifiers (json_of resp)
            \<and> map_of (metadata r) (column_title col @ ''_id'') = Some v \<and> truthy v
            \<and> py_int v = Inr n \<and> linked_table nc r col = Inr t
            \<and> get_records_by_id nc t [JInt n] = Some (sent, Inr records)
          \<longrightarrow> get_linked_records nc r col = Some (Inr records))
       \<and> (no_identifiers (json_of resp) \<and> foreign_key r col = None
          \<longrightarrow> get_linked_records nc r col = Some (Inr []))"
proof -
  have early: "get_linked_records nc r col = Some (Inr [])"
    if "json_of resp = Inr response_data \<and> contains ''list'' response_data = Inr True
            \<and> getitem response_data (JStr ''list'') = Inr l \<and> \<not> truthy l"
  proof -
    from that have "common_formats response_data = Returned"
      by (simp add: common_formats_def)
    with that have "response_ids resp r col = None"
      by (simp add: response_ids_def gather_ids_def)
    with assms show ?thesis
      by (simp add: get_linked_records_def linked_records_try_def)
  qed
  have ids: "response_ids resp r col = Some (int_ids [v])"
    if "no_identifiers (json_of resp)
            \<and> map_of (metadata r) (column_title col @ ''_id'') = Some v \<and> truthy v" for v
    using that
    by (simp add: response_ids_def gather_no_identifiers foreign_key_Some or_foreign_key_def)
  have fetch: "linked_records_try nc r col = map_option snd (get_records_by_id nc t [JInt n])"
    if a: "no_identifiers (json_of resp)
            \<and> map_of (metadata r) (column_title col @ ''_id'') = Some v \<and> truthy v
            \<and> py_int v = Inr n \<and> linked_table nc r col = Inr t" for v n t
  proof -
    from a have "v \<noteq> JNull"
      by auto
    with a have "int_ids [v] = Inr [n]"
      by simp
    with ids [of v] a have "response_ids resp r col = Some (Inr [n])"
      by simp
    with assms a show ?thesis
      by (simp add: linked_records_try_def)
  qed
  have result: "get_linked_records nc r col = Some (Inr records)"
    if a: "no_identifiers (json_of resp)
            \<and> map_of (metadata r) (column_title col @ ''_id'') = Some v \<and> truthy v
            \<and> py_int v = Inr n \<and> linked_table nc r col = Inr t
            \<and> get_records_by_id nc t [JInt n] = Some (sent, Inr records)" for v n t sent records
  proof -
    from a fetch [of v n t] have "linked_records_try nc r col = Some (Inr records)"
      by simp
    then show ?thesis
      by (simp add: get_linked_records_def)
  qed
  have none: "get_linked_records nc r col = Some (Inr [])"
    if a: "no_identifiers (json_of resp) \<and> foreign_key r col = None"
  proof -
    from a have "response_ids resp r col = Some (Inr [])"
      by (simp add: response_ids_def gather_no_identifiers or_foreign_key_def)
    with assms show ?thesis
      by (simp add: get_linked_records_def linked_records_try_def)
  qed
  have key: "foreign_key r col = None \<longleftrightarrow>
            (case map_of (metadata r) (column_title col @ ''_id'') of
               None \<Rightarrow> True
             | Some v \<Rightarrow> \<not> truthy v)"
    by (simp add: foreign_key_def split: option.splits)
  from early key ids fetch result none show ?thesis
    by blast
qed


text \<open>
  The record holds Orders_id = 9 and the base a table Orders. An empty "list" array ends
  the call with the empty list; a "list" whose element has no Id, and a body that does not
  parse, give record 9 of Orders; without the attribute the call returns the empty list.
\<close>

theorem foreign_key_fallback_witness:
  "get_linked_records
     (link_server (body (JObj [(''list'', JList [])])) (\<lambda>t. list_endpoint [row 7, row 9])
        [titled ''Orders''])
     (customer [(''Orders_id'', JInt 9)]) (link_column ''Orders'' None) = Some (Inr [])
   \<and> get_linked_records
       (link_server (body (JObj [(''list'', JList [JObj []])])) (\<lambda>t. list_endpoint [row 7, row 9])
          [titled ''Orders''])
       (customer [(''Orders_id'', JInt 9)]) (link_column ''Orders'' None)
     = Some (Inr [record_of (titled ''Orders'') 9])
   \<and> get_linked_records
       (link_server (Inr (Response None)) (\<lambda>t. list_endpoint [row 7, row 9]) [titled ''Orders''])
       (customer [(''Orders_id'', JInt 9)]) (link_column ''Orders'' None)
     = Some (Inr [record_of (titled ''Orders'') 9])
   \<and> get_linked_records
       (link_server (body (JObj [(''list'', JList [JObj []])])) (\<lambda>t. list_endpoint [row 7, row 9])
          [titled ''Orders''])
       (customer []) (link_column ''Orders'' None) = Some (Inr [])"
proof -
  let ?rows = "\<lambda>t :: string. list_endpoint [row 7, row 9]"
  let ?col = "link_column ''Orders'' None"
  let ?r = "customer [(''Orders_id'', JInt 9)]"
  let ?empty = "JObj [(''list'', JList [])]"
  let ?no_id = "JObj [(''list'', JList [JObj []])]"
  let ?sent = "[records_request (titled ''Orders'')
                  [(''where'', PIdIn [JInt 9]), (''offset'', PInt 0), (''limit'', PInt 1000)]]"
  have call: "\<And>resp r. call_noco (link_server resp ?rows [titled ''Orders'']) (link_request r ?col)
                        = resp"
    by (simp add: link_server_def example_client_def link_request_def)
  have h1: "json_of (Response (Some ?empty)) = Inr ?empty
            \<and> contains ''list'' ?empty = Inr True
            \<and> getitem ?empty (JStr ''list'') = Inr (JList []) \<and> \<not> truthy (JList [])"
    by simp
  from foreign_key_fallback [where nc = "link_server (body ?empty) ?rows [titled ''Orders'']"
      and r = ?r and col = ?col and resp = "Response (Some ?empty)" and response_data = ?empty
      and l = "JList []"] call h1
  have 1: "get_linked_records (link_server (body ?empty) ?rows [titled ''Orders'']) ?r ?col
           = Some (Inr [])"
    by (simp add: body_def)
  have key: "map_of (metadata ?r) (column_title ?col @ ''_id'') = Some (JInt 9) \<and> truthy (JInt 9)
             \<and> py_int (JInt 9) = Inr 9"
    by (simp add: customer_def link_column_def)
  have table: "\<And>resp. linked_table (link_server resp ?rows [titled ''Orders'']) ?r ?col
                      = Inr (titled ''Orders'')"
    by (simp add: linked_table_def link_server_def example_client_def link_column_def
          find_table_def titled_def)
  have fetch: "\<And>resp. get_records_by_id (link_server resp ?rows [titled ''Orders''])
                        (titled ''Orders'') [JInt 9]
                      = Some (?sent, Inr [record_of (titled ''Orders'') 9])"
  proof -
    fix resp
    have "fetch_page (link_server resp ?rows [titled ''Orders'']) (titled ''Orders'')
            [(''where'', PIdIn [JInt 9]), (''offset'', PInt 0), (''limit'', PInt 1000)]
          = Inr ([record_of (titled ''Orders'') 9], True)"
      by (simp add: fetch_page_def link_server_def example_client_def records_request_def
            list_endpoint_def selected_def row_def list_page_def page_records_def
            is_last_page_def record_of_def)
    then show "get_records_by_id (link_server resp ?rows [titled ''Orders''])
                        (titled ''Orders'') [JInt 9]
                      = Some (?sent, Inr [record_of (titled ''Orders'') 9])"
      by (simp add: get_records_by_id_def get_records_def get_records_loop.simps)
  qed
  have n2: "no_identifiers (json_of (Response (Some ?no_id)))"
    by code_simp
  have n3: "no_identifiers (json_of (Response None))"
    by code_simp
  from n2 key table [of "body ?no_id"] fetch [of "body ?no_id"]
  have h2: "no_identifiers (json_of (Response (Some ?no_id)))
            \<and> map_of (metadata ?r) (column_title ?col @ ''_id'') = Some (JInt 9) \<and> truthy (JInt 9)
            \<and> py_int (JInt 9) = Inr 9
            \<and> linked_table (link_server (body ?no_id) ?rows [titled ''Orders'']) ?r ?col
              = Inr (titled ''Orders'')
            \<and> get_records_by_id (link_server (body ?no_id) ?rows [titled ''Orders''])
                (titled ''Orders'') [JInt 9]
              = Some (?sent, Inr [record_of (titled ''Orders'') 9])"
    by blast
  have c2: "call_noco (link_server (body ?no_id) ?rows [titled ''Orders'']) (link_request ?r ?col)
            = Inr (Response (Some ?no_id))"
    by (simp add: call body_def)
  from foreign_key_fallback [OF c2, where v = "JInt 9" and n = 9 and t = "titled ''Orders''"
      and sent = ?sent and records = "[record_of (titled ''Orders'') 9]"] h2
  have 2: "get_linked_records (link_server (body ?no_id) ?rows [titled ''Orders'']) ?r ?col
           = Some (Inr [record_of (titled ''Orders'') 9])"
    by blast
  from n3 key table [of "Inr (Response None)"] fetch [of "Inr (Response None)"]
  have h3: "no_identifiers (json_of (Response None))
            \<and> map_of (metadata ?r) (column_title ?col @ ''_id'') = Some (JInt 9) \<and> truthy (JInt 9)
            \<and> py_int (JInt 9) = Inr 9
            \<and> linked_table (link_server (Inr (Response None)) ?rows [titled ''Orders'']) ?r ?col
              = Inr (titled ''Orders'')
            \<and> get_records_by_id (link_server (Inr (Response None)) ?rows [titled ''Orders''])
                (titled ''Orders'') [JInt 9]
              = Some (?sent, Inr [record_of (titled ''Orders'') 9])"
    by blast
  have c3: "call_noco (link_server (Inr (Response None)) ?rows [titled ''Orders''])
              (link_request ?r ?col) = Inr (Response None)"
    by (simp add: call)
  from foreign_key_fallback [OF c3, where v = "JInt 9" and n = 9 and t = "titled ''Orders''"
      and sent = ?sent and records = "[record_of (titled ''Orders'') 9]"] h3
  have 3: "get_linked_records (link_server (Inr (Response None)) ?rows [titled ''Orders''])
             ?r ?col = Some (Inr [record_of (titled ''Orders'') 9])"
    by blast
  have k4: "foreign_key (customer []) ?col = None"
    by code_simp
  have c4: "call_noco (link_server (body ?no_id) ?rows [titled ''Orders''])
              (link_request (customer []) ?col) = Inr (Response (Some ?no_id))"
    by (simp add: call body_def)
  from foreign_key_fallback [OF c4] n2 k4
  have 4: "get_linked_records (link_server (body ?no_id) ?rows [titled ''Orders''])
             (customer []) ?col = Some (Inr [])"
    by blast
  from 1 2 3 4 show ?thesis by blast
qed

section \<open>Record.get_linked_records: the coercion to integers\<close>

lemma int_ids_all:
  "list_all (\<lambda>v. v = JNull \<or> coercible v) ids
   \<Longrightarrow> int_ids ids = Inr (map coerced (filter (\<lambda>v. v \<noteq> JNull) ids))"
  by (induction ids) (auto simp: coercible_def coerced_def split: sum.splits)

lemma int_ids_first_offender:
  "find (\<lambda>v. v \<noteq> JNull \<and> \<not> coercible v) ids = Some v
   \<Longrightarrow> \<exists>e. py_int v = Inl e \<and> int_ids ids = Inl e"
proof (induction ids)
  case Nil
  then show ?case by simp
next
  case (Cons u us)
  show ?case
  proof (cases "u = JNull")
    case True
    with Cons show ?thesis by simp
  next
    case False
    show ?thesis
    proof (cases "py_int u")
      case (Inl e)
      then have "\<not> coercible u" by (simp add: coercible_def)
      with False Cons.prems have "v = u" by simp
      with Inl False show ?thesis by simp
    next
      case (Inr n)
      then have "coercible u" by (simp add: coercible_def)
      with Cons False have "\<exists>e. py_int v = Inl e \<and> int_ids us = Inl e" by simp
      with Inr False show ?thesis by auto
    qed
  qed
qed

lemma no_ids_no_records:
  "call_noco nc (link_request r col) = Inr resp \<Longrightarrow> response_ids resp r col = Some (Inr [])
   \<Longrightarrow> get_linked_records nc r col = Some (Inr [])"
  by (simp add: get_linked_records_def linked_records_try_def)

text \<open>
  C4, as the claim states it, fails: an identifier that \<^verbatim>\<open>int\<close> rejects is not dropped,
  the comprehension raises. With the body {"Id": "abc"} and no foreign key in the
  attribute bag the whole call ends with that ValueError.
\<close>

theorem unparseable_identifier_raises:
  "int_ids [JInt 3, JStr ''abc''] = Inl ValueError
   \<and> get_linked_records
       (link_server (body (JObj [(''Id'', JStr ''abc'')])) (\<lambda>t. list_endpoint [row 9])
          [titled ''Orders''])
       (customer []) (link_column ''Orders'' None) = Some (Inl ValueError)"
  by code_simp

text \<open>
  C4, amended. None entries are dropped and every other entry goes through \<^verbatim>\<open>int\<close>:
  when all of them are accepted the result is the list of their values, in order; the
  first entry that \<^verbatim>\<open>int\<close> rejects raises its exception (into the handler of C5). When
  the resulting list is empty the call returns the empty list, not an error.
\<close>

theorem int_ids_coercion:
  "(list_all (\<lambda>v. v = JNull \<or> coercible v) ids
      \<longrightarrow> int_ids ids = Inr (map coerced (filter (\<lambda>v. v \<noteq> JNull) ids)))
   \<and> (find (\<lambda>v. v \<noteq> JNull \<and> \<not> coercible v) ids = Some v
      \<longrightarrow> (\<exists>e. py_int v = Inl e \<and> int_ids ids = Inl e))
   \<and> (call_noco nc (link_request r col) = Inr resp \<and> response_ids resp r col = Some (Inr [])
      \<longrightarrow> get_linked_records nc r col = Some (Inr []))"
  using int_ids_all int_ids_first_offender no_ids_no_records by blast

text \<open>A list that is coerced, a list that raises, and a call that returns the empty list.\<close>

theorem int_ids_coercion_witness:
  "int_ids [JInt 3, JNull, JStr ''5'', JBool True] = Inr [3, 5, 1]
   \<and> int_ids [JInt 3, JNull, JStr ''abc'', JInt 4] = Inl ValueError
   \<and> get_linked_records
       (link_server (body (JObj [(''Id'', JNull)])) (\<lambda>t. list_endpoint [row 9])
          [titled ''Orders''])
       (customer []) (link_column ''Orders'' None) = Some (Inr [])"
proof -
  have a: "list_all (\<lambda>v. v = JNull \<or> coercible v) [JInt 3, JNull, JStr ''5'', JBool True]"
    by code_simp
  have a': "map coerced (filter (\<lambda>v. v \<noteq> JNull) [JInt 3, JNull, JStr ''5'', JBool True])
            = [3, 5, 1]"
    by code_simp
  have b: "find (\<lambda>v. v \<noteq> JNull \<and> \<not> coercible v) [JInt 3, JNull, JStr ''abc'', JInt 4]
           = Some (JStr ''abc'')"
    by code_simp
  have b': "py_int (JStr ''abc'') = Inl ValueError"
    by code_simp
  have c: "call_noco
             (link_server (body (JObj [(''Id'', JNull)])) (\<lambda>t. list_endpoint [row 9])
                [titled ''Orders''])
             (link_request (customer []) (link_column ''Orders'' None))
           = Inr (Response (Some (JObj [(''Id'', JNull)])))"
    by (simp add: link_server_def example_client_def body_def link_request_def)
  have c': "response_ids (Response (Some (JObj [(''Id'', JNull)]))) (customer [])
              (link_column ''Orders'' None) = Some (Inr [])"
    by code_simp
  from a a' b b' c c'
    int_ids_coercion [of "[JInt 3, JNull, JStr ''5'', JBool True]"]
    int_ids_coercion [of "[JInt 3, JNull, JStr ''abc'', JInt 4]" "JStr ''abc''"]
    int_ids_coercion [of "[]" JNull
      "link_server (body (JObj [(''Id'', JNull)])) (\<lambda>t. list_endpoint [row 9]) [titled ''Orders'']"
      "customer []" "link_column ''Orders'' None" "Response (Some (JObj [(''Id'', JNull)]))"]
  show ?thesis by auto
qed

section \<open>Record.get_linked_records: the linked table and the recovery\<close>

lemma find_table_first:
  "\<forall>t' \<in> set pre. table_title t' \<noteq> name \<Longrightarrow> table_title t = name
   \<Longrightarrow> find_table name (pre @ t # post) = Some t"
  by (induction pre) (auto simp: find_table_def)

lemma find_table_none:
  "\<forall>t \<in> set ts. table_title t \<noteq> name \<Longrightarrow> find_table name ts = None"
  by (induction ts) (auto simp: find_table_def)

lemma foreign_key_None:
  "foreign_key r col = None \<longleftrightarrow>
     (case map_of (metadata r) (column_title col @ ''_id'') of
        None \<Rightarrow> True
      | Some v \<Rightarrow> \<not> truthy v)"
  by (simp add: foreign_key_def split: option.splits)

text \<open>
  C5, as the claim states it, fails for the exceptions of reading the response: they are
  caught inside the try body and never reach the recovery. The body of the response does
  not parse: without the attribute the call returns the empty list instead of raising, and
  with Orders_id = 9 and linked_table_id = Invoices the record is fetched from the table
  Invoices, found by its identifier, not from the table titled Orders.
\<close>

theorem parse_exception_absorbed:
  "json_of (Response None) = Inl JSONDecodeError
   \<and> get_linked_records
       (link_server (Inr (Response None)) (\<lambda>t. list_endpoint [row 7, row 9])
          [titled ''Invoices'', titled ''Orders''])
       (customer []) (link_column ''Orders'' None) = Some (Inr [])
   \<and> get_linked_records
       (link_server (Inr (Response None)) (\<lambda>t. list_endpoint [row 7, row 9])
          [titled ''Invoices'', titled ''Orders''])
       (customer [(''Orders_id'', JInt 9)]) (link_column ''Orders'' (Some ''Invoices''))
     = Some (Inr [record_of (titled ''Invoices'') 9])"
  by code_simp

text \<open>
  C5, amended. An exception leaves the try body when the call of the link endpoint, the
  coercion of an identifier, the search for the linked table or the fetch of the records
  raises. For such an exception \<open>e\<close> the handler uses only the attribute
  \<^verbatim>\<open>{column.title}_id\<close> and the first table of the base whose title is the column's
  title: without the attribute (absent or falsy) \<open>e\<close> is raised again; with it and no such
  table the call fails with "Could not find linked table: <title>"; with it and such a
  table the call is that table's get_records_by_id on the attribute alone. An exception
  of reading or parsing the response is absorbed inside the try body instead: the
  identifiers are then the attribute, if there, or what had been found, and without any
  the call returns the empty list.
\<close>

theorem recovery_after_exception:
  "(call_noco nc (link_request r col) = Inl e \<longrightarrow> linked_records_try nc r col = Some (Inl e))
   \<and> (call_noco nc (link_request r col) = Inr resp \<and> response_ids resp r col = Some (Inl e)
      \<longrightarrow> linked_records_try nc r col = Some (Inl e))
   \<and> (call_noco nc (link_request r col) = Inr resp \<and> response_ids resp r col = Some (Inr ids)
        \<and> ids \<noteq> [] \<and> linked_table nc r col = Inl e
      \<longrightarrow> linked_records_try nc r col = Some (Inl e))
   \<and> (call_noco nc (link_request r col) = Inr resp \<and> response_ids resp r col = Some (Inr ids)
        \<and> ids \<noteq> [] \<and> linked_table nc r col = Inr t
        \<and> get_records_by_id nc t (map JInt ids) = Some (sent, Inl e)
      \<longrightarrow> linked_records_try nc r col = Some (Inl e))
   \<and> (foreign_key r col = None \<longleftrightarrow>
        (case map_of (metadata r) (column_title col @ ''_id'') of
           None \<Rightarrow> True
         | Some v \<Rightarrow> \<not> truthy v))
   \<and> (linked_records_try nc r col = Some (Inl e) \<and> foreign_key r col = None
      \<longrightarrow> get_linked_records nc r col = Some (Inl e))
   \<and> (linked_records_try nc r col = Some (Inl e) \<and> foreign_key r col = Some fk
        \<and> get_base nc (base_id (record_table r)) = Inr b \<and> get_tables nc b = Inr ts
        \<and> (\<forall>t \<in> set ts. table_title t \<noteq> column_title col)
      \<longrightarrow> get_linked_records nc r col
            = Some (Inl (Exception (''Could not find linked table: '' @ column_title col))))
   \<and> (linked_records_try nc r col = Some (Inl e) \<and> foreign_key r col = Some fk
        \<and> get_base nc (base_id (record_table r)) = Inr b
        \<and> get_tables nc b = Inr (pre @ t # post)
        \<and> (\<forall>t' \<in> set pre. table_title t' \<noteq> column_title col)
        \<and> table_title t = column_title col
      \<longrightarrow> get_linked_records nc r col = map_option snd (get_records_by_id nc t [fk]))
   \<and> (json_of resp = Inl e
      \<longrightarrow> response_ids resp r col = Some (int_ids (or_foreign_key (foreign_key r col) [])))
   \<and> (json_of resp = Inr response_data \<and> common_formats response_data = Raised found e
      \<longrightarrow> response_ids resp r col = Some (int_ids (or_foreign_key (foreign_key r col) found)))
   \<and> (call_noco nc (link_request r col) = Inr resp \<and> json_of resp = Inl e
        \<and> foreign_key r col = None
      \<longrightarrow> get_linked_records nc r col = Some (Inr []))
   \<and> (call_noco nc (link_request r col) = Inr resp \<and> json_of resp = Inl e
        \<and> foreign_key r col = Some fk \<and> py_int fk = Inr n \<and> linked_table nc r col = Inr t
      \<longrightarrow> linked_records_try nc r col = map_option snd (get_records_by_id nc t [JInt n]))"
proof (intro conjI impI)
  assume "call_noco nc (link_request r col) = Inl e"
  then show "linked_records_try nc r col = Some (Inl e)"
    by (simp add: linked_records_try_def)
next
  assume "call_noco nc (link_request r col) = Inr resp \<and> response_ids resp r col = Some (Inl e)"
  then show "linked_records_try nc r col = Some (Inl e)"
    by (simp add: linked_records_try_def)
next
  assume "call_noco nc (link_request r col) = Inr resp \<and> response_ids resp r col = Some (Inr ids)
        \<and> ids \<noteq> [] \<and> linked_table nc r col = Inl e"
  then show "linked_records_try nc r col = Some (Inl e)"
    by (simp add: linked_records_try_def)
next
  assume "call_noco nc (link_request r col) = Inr resp \<and> response_ids resp r col = Some (Inr ids)
        \<and> ids \<noteq> [] \<and> linked_table nc r col = Inr t
        \<and> get_records_by_id nc t (map JInt ids) = Some (sent, Inl e)"
  then show "linked_records_try nc r col = Some (Inl e)"
    by (simp add: linked_records_try_def)
next
  show "foreign_key r col = None \<longleftrightarrow>
        (case map_of (metadata r) (column_title col @ ''_id'') of
           None \<Rightarrow> True
         | Some v \<Rightarrow> \<not> truthy v)"
    by (rule foreign_key_None)
next
  assume "linked_records_try nc r col = Some (Inl e) \<and> foreign_key r col = None"
  then show "get_linked_records nc r col = Some (Inl e)"
    by (simp add: get_linked_records_def linked_records_except_def)
next
  assume a: "linked_records_try nc r col = Some (Inl e) \<and> foreign_key r col = Some fk
        \<and> get_base nc (base_id (record_table r)) = Inr b \<and> get_tables nc b = Inr ts
        \<and> (\<forall>t \<in> set ts. table_title t \<noteq> column_title col)"
  then have "find_table (column_title col) ts = None"
    by (simp add: find_table_none)
  with a show "get_linked_records nc r col
            = Some (Inl (Exception (''Could not find linked table: '' @ column_title col)))"
    by (simp add: get_linked_records_def linked_records_except_def not_found_def)
next
  assume a: "linked_records_try nc r col = Some (Inl e) \<and> foreign_key r col = Some fk
        \<and> get_base nc (base_id (record_table r)) = Inr b
        \<and> get_tables nc b = Inr (pre @ t # post)
        \<and> (\<forall>t' \<in> set pre. table_title t' \<noteq> column_title col)
        \<and> table_title t = column_title col"
  then have "find_table (column_title col) (pre @ t # post) = Some t"
    by (simp add: find_table_first)
  with a show "get_linked_records nc r col = map_option snd (get_records_by_id nc t [fk])"
    by (simp add: get_linked_records_def linked_records_except_def)
next
  assume "json_of resp = Inl e"
  then show "response_ids resp r col = Some (int_ids (or_foreign_key (foreign_key r col) []))"
    by (simp add: response_ids_def gather_ids_def)
next
  assume "json_of resp = Inr response_data \<and> common_formats response_data = Raised found e"
  then show "response_ids resp r col = Some (int_ids (or_foreign_key (foreign_key r col) found))"
    by (simp add: response_ids_def gather_ids_def)
next
  assume "call_noco nc (link_request r col) = Inr resp \<and> json_of resp = Inl e
        \<and> foreign_key r col = None"
  then show "get_linked_records nc r col = Some (Inr [])"
    by (simp add: get_linked_records_def linked_records_try_def response_ids_def gather_ids_def
          or_foreign_key_def)
next
  assume a: "call_noco nc (link_request r col) = Inr resp \<and> json_of resp = Inl e
        \<and> foreign_key r col = Some fk \<and> py_int fk = Inr n \<and> linked_table nc r col = Inr t"
  then have "truthy fk"
    by (auto simp: foreign_key_def split: option.splits if_splits)
  then have "fk \<noteq> JNull"
    by auto
  with a show "linked_records_try nc r col = map_option snd (get_records_by_id nc t [JInt n])"
    by (simp add: linked_records_try_def response_ids_def gather_ids_def or_foreign_key_def)
qed


text \<open>
  The link endpoint is down: without the attribute the transport error comes back; with
  Orders_id = 9 and no table titled Orders the call fails with the message; with a table
  titled Orders (after one titled Invoices) record 9 of Orders is returned. An identifier
  that is not a number: the ValueError comes back. The records of the linked table cannot
  be fetched: record 9 of Orders is returned. The body does not parse: the call returns
  the empty list, or fetches the attribute from the table found by linked_table_id.
\<close>

theorem recovery_after_exception_witness:
  "get_linked_records
     (link_server down (\<lambda>t. list_endpoint [row 7, row 9]) [titled ''Invoices''])
     (customer []) (link_column ''Orders'' None)
   = Some (Inl (TransportError ''offline''))
   \<and> get_linked_records
       (link_server down (\<lambda>t. list_endpoint [row 7, row 9]) [titled ''Invoices''])
       (customer [(''Orders_id'', JInt 9)]) (link_column ''Orders'' None)
     = Some (Inl (Exception ''Could not find linked table: Orders''))
   \<and> get_linked_records
       (link_server down (\<lambda>t. list_endpoint [row 7, row 9])
          [titled ''Invoices'', titled ''Orders''])
       (customer [(''Orders_id'', JInt 9)]) (link_column ''Orders'' None)
     = Some (Inr [record_of (titled ''Orders'') 9])
   \<and> get_linked_records
       (link_server (body (JObj [(''Id'', JStr ''abc'')])) (\<lambda>t. list_endpoint [row 7, row 9])
          [titled ''Invoices'', titled ''Orders''])
       (customer []) (link_column ''Orders'' None)
     = Some (Inl ValueError)
   \<and> get_linked_records
       (link_server (body (JObj [(''Id'', JInt 7)]))
          (\<lambda>t. if t = ''Orders'' then list_endpoint [row 7, row 9] else offline)
          [titled ''Invoices'', titled ''Orders''])
       (customer [(''Orders_id'', JInt 9)]) (link_column ''Orders'' (Some ''Invoices''))
     = Some (Inr [record_of (titled ''Orders'') 9])
   \<and> get_linked_records
       (link_server (Inr (Response None)) (\<lambda>t. list_endpoint [row 7, row 9])
          [titled ''Invoices'', titled ''Orders''])
       (customer []) (link_column ''Orders'' None)
     = Some (Inr [])
   \<and> linked_records_try
       (link_server (Inr (Response None)) (\<lambda>t. list_endpoint [row 7, row 9])
          [titled ''Invoices'', titled ''Orders''])
       (customer [(''Orders_id'', JInt 9)]) (link_column ''Orders'' (Some ''Invoices''))
     = Some (Inr [record_of (titled ''Invoices'') 9])
   \<and> response_ids (Response (Some (JInt 5))) (customer [(''Orders_id'', JInt 9)])
       (link_column ''Orders'' None)
     = Some (Inr [9])"
proof -
  let ?rows = "\<lambda>t :: string. list_endpoint [row 7, row 9]"
  let ?only = "\<lambda>t. if t = ''Orders'' then list_endpoint [row 7, row 9] else offline"
  let ?col = "link_column ''Orders'' None"
  let ?lcol = "link_column ''Orders'' (Some ''Invoices'')"
  let ?r = "customer [(''Orders_id'', JInt 9)]"
  let ?plain = "customer []"
  let ?b = "\<lparr>base_ident = ''b''\<rparr>"
  let ?two = "[titled ''Invoices'', titled ''Orders'']"
  have call: "\<And>resp rows ts r col. call_noco (link_server resp rows ts) (link_request r col) = resp"
    by (simp add: link_server_def example_client_def link_request_def)
  have gb: "\<And>resp rows ts extra. get_base (link_server resp rows ts)
                                   (base_id (record_table (customer extra))) = Inr ?b"
    by (simp add: link_server_def example_client_def customer_def titled_def)
  have gt: "\<And>resp rows ts. get_tables (link_server resp rows ts) ?b = Inr ts"
    by (simp add: link_server_def example_client_def)
  have k0: "foreign_key ?plain ?col = None"
    by (simp add: foreign_key_def customer_def link_column_def)
  have k9: "\<And>l. foreign_key ?r (link_column ''Orders'' l) = Some (JInt 9)"
    by (simp add: foreign_key_def customer_def link_column_def)
  have title: "\<And>l. column_title (link_column ''Orders'' l) = ''Orders''"
    by (simp add: link_column_def)
  have none: "\<forall>t \<in> set [titled ''Invoices'']. table_title t \<noteq> ''Orders''"
    by (simp add: titled_def)
  have orders: "table_title (titled ''Orders'') = ''Orders''"
    by (simp add: titled_def)
  have fetch: "\<And>resp rows ts t. rows t = list_endpoint [row 7, row 9]
                 \<Longrightarrow> get_records_by_id (link_server resp rows ts) (titled t) [JInt 9]
                     = Some ([records_request (titled t)
                                [(''where'', PIdIn [JInt 9]), (''offset'', PInt 0),
                                 (''limit'', PInt 1000)]],
                             Inr [record_of (titled t) 9])"
  proof -
    fix resp ts t and rows :: "string \<Rightarrow> request \<Rightarrow> error + response"
    assume "rows t = list_endpoint [row 7, row 9]"
    then have "fetch_page (link_server resp rows ts) (titled t)
            [(''where'', PIdIn [JInt 9]), (''offset'', PInt 0), (''limit'', PInt 1000)]
          = Inr ([record_of (titled t) 9], True)"
      by (simp add: fetch_page_def link_server_def example_client_def records_request_def
            list_endpoint_def selected_def row_def list_page_def page_records_def
            is_last_page_def record_of_def titled_def)
    then show "get_records_by_id (link_server resp rows ts) (titled t) [JInt 9]
                     = Some ([records_request (titled t)
                                [(''where'', PIdIn [JInt 9]), (''offset'', PInt 0),
                                 (''limit'', PInt 1000)]],
                             Inr [record_of (titled t) 9])"
      by (simp add: get_records_by_id_def get_records_def get_records_loop.simps)
  qed
  have d: "down = Inl (TransportError ''offline'')"
    by (simp add: down_def)
  note raised_call = recovery_after_exception [THEN conjunct1, THEN mp]
  note raised_int = recovery_after_exception [THEN conjunct2, THEN conjunct1, THEN mp]
  note raised_fetch =
    recovery_after_exception [THEN conjunct2, THEN conjunct2, THEN conjunct2, THEN conjunct1,
      THEN mp]
  note rest = recovery_after_exception [THEN conjunct2, THEN conjunct2, THEN conjunct2,
      THEN conjunct2, THEN conjunct2]
  note reraised = rest [THEN conjunct1, THEN mp]
  note not_found = rest [THEN conjunct2, THEN conjunct1, THEN mp]
  note by_title = rest [THEN conjunct2, THEN conjunct2, THEN conjunct1, THEN mp]
  note absorbed = rest [THEN conjunct2, THEN conjunct2, THEN conjunct2]
  note ids_raised = absorbed [THEN conjunct2, THEN conjunct1, THEN mp]
  note absorbed_empty = absorbed [THEN conjunct2, THEN conjunct2, THEN conjunct1, THEN mp]
  note absorbed_fetch = absorbed [THEN conjunct2, THEN conjunct2, THEN conjunct2, THEN mp]
  \<comment> \<open>the link endpoint is down\<close>
  have c1: "call_noco (link_server down ?rows [titled ''Invoices'']) (link_request ?plain ?col)
            = Inl (TransportError ''offline'')"
    by (simp add: call d)
  from reraised [OF conjI [OF raised_call [OF c1] k0]]
  have 1: "get_linked_records (link_server down ?rows [titled ''Invoices'']) ?plain ?col
           = Some (Inl (TransportError ''offline''))" .
  have h2: "foreign_key ?r ?col = Some (JInt 9)
            \<and> get_base (link_server down ?rows [titled ''Invoices'']) (base_id (record_table ?r))
              = Inr ?b
            \<and> get_tables (link_server down ?rows [titled ''Invoices'']) ?b
              = Inr [titled ''Invoices'']
            \<and> (\<forall>t \<in> set [titled ''Invoices'']. table_title t \<noteq> column_title ?col)"
    using k9 gb gt none title by simp
  have c2: "call_noco (link_server down ?rows [titled ''Invoices'']) (link_request ?r ?col)
            = Inl (TransportError ''offline'')"
    by (simp add: call d)
  from not_found [OF conjI [OF raised_call [OF c2] h2]]
  have "get_linked_records (link_server down ?rows [titled ''Invoices'']) ?r ?col
        = Some (Inl (Exception (''Could not find linked table: '' @ column_title ?col)))" .
  then have 2: "get_linked_records (link_server down ?rows [titled ''Invoices'']) ?r ?col
        = Some (Inl (Exception ''Could not find linked table: Orders''))"
    by (simp add: title)
  have h3: "foreign_key ?r ?col = Some (JInt 9)
            \<and> get_base (link_server down ?rows ?two) (base_id (record_table ?r)) = Inr ?b
            \<and> get_tables (link_server down ?rows ?two) ?b
              = Inr ([titled ''Invoices''] @ titled ''Orders'' # [])
            \<and> (\<forall>t' \<in> set [titled ''Invoices'']. table_title t' \<noteq> column_title ?col)
            \<and> table_title (titled ''Orders'') = column_title ?col"
    using k9 gb gt none title orders by simp
  have c3: "call_noco (link_server down ?rows ?two) (link_request ?r ?col)
            = Inl (TransportError ''offline'')"
    by (simp add: call d)
  from by_title [OF conjI [OF raised_call [OF c3] h3]]
  have "get_linked_records (link_server down ?rows ?two) ?r ?col
        = map_option snd (get_records_by_id (link_server down ?rows ?two) (titled ''Orders'')
                            [JInt 9])" .
  then have 3: "get_linked_records (link_server down ?rows ?two) ?r ?col
        = Some (Inr [record_of (titled ''Orders'') 9])"
    by (simp add: fetch)
  \<comment> \<open>an identifier that is not a number\<close>
  let ?abc = "Response (Some (JObj [(''Id'', JStr ''abc'')]))"
  have i4: "response_ids ?abc ?plain ?col = Some (Inl ValueError)"
    by code_simp
  have h4: "call_noco (link_server (body (JObj [(''Id'', JStr ''abc'')])) ?rows ?two)
              (link_request ?plain ?col) = Inr ?abc
            \<and> response_ids ?abc ?plain ?col = Some (Inl ValueError)"
    using i4 by (simp add: call body_def)
  from reraised [OF conjI [OF raised_int [OF h4] k0]]
  have 4: "get_linked_records (link_server (body (JObj [(''Id'', JStr ''abc'')])) ?rows ?two)
             ?plain ?col = Some (Inl ValueError)" .
  \<comment> \<open>the records of the linked table cannot be fetched\<close>
  let ?seven = "Response (Some (JObj [(''Id'', JInt 7)]))"
  let ?failing = "link_server (body (JObj [(''Id'', JInt 7)])) ?only ?two"
  have f5: "get_records_by_id ?failing (titled ''Invoices'') (map JInt [7])
            = Some ([records_request (titled ''Invoices'')
                       [(''where'', PIdIn [JInt 7]), (''offset'', PInt 0), (''limit'', PInt 1000)]],
                    Inl (TransportError ''offline''))"
    by code_simp
  have i5: "response_ids ?seven ?r ?lcol = Some (Inr [7])"
    by (simp add: response_ids_def gather_ids_def common_formats_def)
  have l5: "linked_table ?failing ?r ?lcol = Inr (titled ''Invoices'')"
    by (simp add: linked_table_def link_column_def link_server_def example_client_def
          lookup_table_def titled_def)
  have h5: "call_noco ?failing (link_request ?r ?lcol) = Inr ?seven
            \<and> response_ids ?seven ?r ?lcol = Some (Inr [7]) \<and> [7 :: int] \<noteq> []
            \<and> linked_table ?failing ?r ?lcol = Inr (titled ''Invoices'')
            \<and> get_records_by_id ?failing (titled ''Invoices'') (map JInt [7])
              = Some ([records_request (titled ''Invoices'')
                         [(''where'', PIdIn [JInt 7]), (''offset'', PInt 0),
                          (''limit'', PInt 1000)]],
                      Inl (TransportError ''offline''))"
    using i5 l5 f5 by (simp add: call body_def)
  have h5': "foreign_key ?r ?lcol = Some (JInt 9)
            \<and> get_base ?failing (base_id (record_table ?r)) = Inr ?b
            \<and> get_tables ?failing ?b = Inr ([titled ''Invoices''] @ titled ''Orders'' # [])
            \<and> (\<forall>t' \<in> set [titled ''Invoices'']. table_title t' \<noteq> column_title ?lcol)
            \<and> table_title (titled ''Orders'') = column_title ?lcol"
    using k9 gb gt none title orders by simp
  from by_title [OF conjI [OF raised_fetch [OF h5] h5']]
  have "get_linked_records ?failing ?r ?lcol
        = map_option snd (get_records_by_id ?failing (titled ''Orders'') [JInt 9])" .
  then have 5: "get_linked_records ?failing ?r ?lcol = Some (Inr [record_of (titled ''Orders'') 9])"
    by (simp add: fetch)
  \<comment> \<open>the body does not parse\<close>
  let ?broken = "link_server (Inr (Response None)) ?rows ?two"
  have h6: "call_noco ?broken (link_request ?plain ?col) = Inr (Response None)
            \<and> json_of (Response None) = Inl JSONDecodeError
            \<and> foreign_key ?plain ?col = None"
    using k0 by (simp add: call)
  from absorbed_empty [OF h6]
  have 6: "get_linked_records ?broken ?plain ?col = Some (Inr [])" .
  have l7: "linked_table ?broken ?r ?lcol = Inr (titled ''Invoices'')"
    by (simp add: linked_table_def link_column_def link_server_def example_client_def
          lookup_table_def titled_def)
  have h7: "call_noco ?broken (link_request ?r ?lcol) = Inr (Response None)
            \<and> json_of (Response None) = Inl JSONDecodeError
            \<and> foreign_key ?r ?lcol = Some (JInt 9) \<and> py_int (JInt 9) = Inr 9
            \<and> linked_table ?broken ?r ?lcol = Inr (titled ''Invoices'')"
    using k9 l7 by (simp add: call)
  from absorbed_fetch [OF h7]
  have "linked_records_try ?broken ?r ?lcol
        = map_option snd (get_records_by_id ?broken (titled ''Invoices'') [JInt 9])" .
  then have 7: "linked_records_try ?broken ?r ?lcol = Some (Inr [record_of (titled ''Invoices'') 9])"
    by (simp add: fetch)
  have h8: "json_of (Response (Some (JInt 5))) = Inr (JInt 5)
            \<and> common_formats (JInt 5) = Raised [] TypeError"
    by (simp add: common_formats_def)
  from ids_raised [OF h8]
  have "response_ids (Response (Some (JInt 5))) ?r ?col
        = Some (int_ids (or_foreign_key (foreign_key ?r ?col) []))" .
  then have 8: "response_ids (Response (Some (JInt 5))) ?r ?col = Some (Inr [9])"
    by (simp add: k9 or_foreign_key_def)
  from 1 2 3 4 5 6 7 8 show ?thesis by blast
qed

text \<open>
  C1, as the claim states it, fails on the whole method. The column carries
  linked_table_id = Invoices and the table Invoices is found by it, but its records cannot
  be fetched; the handler then takes the attribute Orders_id = 9 and the table whose title
  is the column's title, and the call returns record 9 of the table Orders.
\<close>

theorem title_match_despite_linked_table_id:
  "linked_table_id (link_column ''Orders'' (Some ''Invoices'')) = Some ''Invoices''
   \<and> linked_table
       (link_server (body (JObj [(''Id'', JInt 7)]))
          (\<lambda>t. if t = ''Orders'' then list_endpoint [row 7, row 9] else offline)
          [titled ''Invoices'', titled ''Orders''])
       (customer [(''Orders_id'', JInt 9)]) (link_column ''Orders'' (Some ''Invoices''))
     = Inr (titled ''Invoices'')
   \<and> get_linked_records
       (link_server (body (JObj [(''Id'', JInt 7)]))
          (\<lambda>t. if t = ''Orders'' then list_endpoint [row 7, row 9] else offline)
          [titled ''Invoices'', titled ''Orders''])
       (customer [(''Orders_id'', JInt 9)]) (link_column ''Orders'' (Some ''Invoices''))
     = Some (Inr [\<lparr>record_table = titled ''Orders'', record_id = JInt 9,
                    metadata = [(''Id'', JInt 9)]\<rparr>])"
  by code_simp

lemma linked_records_try_ids:
  assumes "call_noco nc (link_request r col) = Inr resp"
    and "response_ids resp r col = Some (Inr record_ids)"
    and "record_ids \<noteq> []"
  shows "linked_records_try nc r col =
           (case linked_table nc r col of
              Inl e \<Rightarrow> Some (Inl e)
            | Inr t \<Rightarrow> map_option snd (get_records_by_id nc t (map JInt record_ids)))"
  using assms by (simp add: linked_records_try_def)

text \<open>
  C1, amended: the body of the \<^verbatim>\<open>try\<close>, once a non-empty list of identifiers is there.
  With linked_table_id the table is the one \<open>get_table\<close> gives for that identifier, and
  the tables of the base are not consulted. Without it the table is the first table of the
  base whose title is the column's title; failing that, when the title ends in s, the
  first whose title is the column's title without that s. When none matches, the body
  raises "Could not determine linked table for column <title>" and the call fails with
  that error, or, when the attribute \<^verbatim>\<open>{column.title}_id\<close> is there, with the handler's
  "Could not find linked table: <title>". A result of the body is the result of the call.
\<close>

theorem linked_table_resolution:
  assumes "call_noco nc (link_request r col) = Inr resp"
    and "response_ids resp r col = Some (Inr record_ids)"
    and "record_ids \<noteq> []"
  shows "(linked_table_id col = Some i \<longrightarrow> linked_table nc r col = get_table nc i)
       \<and> (linked_table_id col = Some i \<and> get_table nc i = Inr t
          \<longrightarrow> linked_records_try nc r col
                = map_option snd (get_records_by_id nc t (map JInt record_ids)))
       \<and> (linked_table_id col = None
            \<and> get_base nc (base_id (record_table r)) = Inr b
            \<and> get_tables nc b = Inr (pre @ t # post)
            \<and> (\<forall>t' \<in> set pre. table_title t' \<noteq> column_title col)
            \<and> table_title t = column_title col
          \<longrightarrow> linked_records_try nc r col
                = map_option snd (get_records_by_id nc t (map JInt record_ids)))
       \<and> (linked_table_id col = None
            \<and> get_base nc (base_id (record_table r)) = Inr b
            \<and> get_tables nc b = Inr (pre @ t # post)
            \<and> (\<forall>t' \<in> set (pre @ t # post). table_title t' \<noteq> column_title col)
            \<and> endswith_s (column_title col)
            \<and> (\<forall>t' \<in> set pre. table_title t' \<noteq> butlast (column_title col))
            \<and> table_title t = butlast (column_title col)
          \<longrightarrow> linked_records_try nc r col
                = map_option snd (get_records_by_id nc t (map JInt record_ids)))
       \<and> (linked_table_id col = None
            \<and> get_base nc (base_id (record_table r)) = Inr b
            \<and> get_tables nc b = Inr ts
            \<and> (\<forall>t' \<in> set ts. table_title t' \<noteq> column_title col
                  \<and> (endswith_s (column_title col)
                       \<longrightarrow> table_title t' \<noteq> butlast (column_title col)))
          \<longrightarrow> linked_records_try nc r col
                = Some (Inl (Exception (''Could not determine linked table for column ''
                                          @ column_title col)))
              \<and> get_linked_records nc r col
                = Some (Inl (Exception
                    ((if foreign_key r col = None
                      then ''Could not determine linked table for column ''
                      else ''Could not find linked table: '') @ column_title col))))
       \<and> (linked_records_try nc r col = Some (Inr records)
          \<longrightarrow> get_linked_records nc r col = Some (Inr records))"
proof (intro conjI impI)
  note body_eq = linked_records_try_ids [OF assms]
  show "linked_table nc r col = get_table nc i" if "linked_table_id col = Some i"
    using that by (simp add: linked_table_def)
  show "linked_records_try nc r col
          = map_option snd (get_records_by_id nc t (map JInt record_ids))"
    if "linked_table_id col = Some i \<and> get_table nc i = Inr t"
    using that body_eq by (simp add: linked_table_def)
  show "linked_records_try nc r col
          = map_option snd (get_records_by_id nc t (map JInt record_ids))"
    if a: "linked_table_id col = None
            \<and> get_base nc (base_id (record_table r)) = Inr b
            \<and> get_tables nc b = Inr (pre @ t # post)
            \<and> (\<forall>t' \<in> set pre. table_title t' \<noteq> column_title col)
            \<and> table_title t = column_title col"
  proof -
    from a have "find_table (column_title col) (pre @ t # post) = Some t"
      by (simp add: find_table_first)
    with a have "linked_table nc r col = Inr t"
      by (simp add: linked_table_def)
    with body_eq show ?thesis by simp
  qed
  show "linked_records_try nc r col
          = map_option snd (get_records_by_id nc t (map JInt record_ids))"
    if a: "linked_table_id col = None
            \<and> get_base nc (base_id (record_table r)) = Inr b
            \<and> get_tables nc b = Inr (pre @ t # post)
            \<and> (\<forall>t' \<in> set (pre @ t # post). table_title t' \<noteq> column_title col)
            \<and> endswith_s (column_title col)
            \<and> (\<forall>t' \<in> set pre. table_title t' \<noteq> butlast (column_title col))
            \<and> table_title t = butlast (column_title col)"
  proof -
    from a have 1: "find_table (column_title col) (pre @ t # post) = None"
      by (intro find_table_none) blast
    from a have 2: "find_table (butlast (column_title col)) (pre @ t # post) = Some t"
      by (intro find_table_first) blast+
    from a 1 2 have "linked_table nc r col = Inr t"
      by (simp add: linked_table_def)
    with body_eq show ?thesis by simp
  qed
  assume a: "linked_table_id col = None
            \<and> get_base nc (base_id (record_table r)) = Inr b
            \<and> get_tables nc b = Inr ts
            \<and> (\<forall>t' \<in> set ts. table_title t' \<noteq> column_title col
                  \<and> (endswith_s (column_title col)
                       \<longrightarrow> table_title t' \<noteq> butlast (column_title col)))"
  then have 1: "find_table (column_title col) ts = None"
    by (intro find_table_none) blast
  from a have 2: "endswith_s (column_title col)
                  \<Longrightarrow> find_table (butlast (column_title col)) ts = None"
    by (intro find_table_none) blast
  from a 1 2 have "linked_table nc r col = Inl (not_determined col)"
    by (simp add: linked_table_def)
  with body_eq have 3: "linked_records_try nc r col = Some (Inl (not_determined col))"
    by simp
  then show "linked_records_try nc r col
                = Some (Inl (Exception (''Could not determine linked table for column ''
                                          @ column_title col)))"
    by (simp add: not_determined_def)
  from a 1 3 show "get_linked_records nc r col
                = Some (Inl (Exception
                    ((if foreign_key r col = None
                      then ''Could not determine linked table for column ''
                      else ''Could not find linked table: '') @ column_title col)))"
    by (auto simp: get_linked_records_def linked_records_except_def not_determined_def
          not_found_def)
next
  assume "linked_records_try nc r col = Some (Inr records)"
  then show "get_linked_records nc r col = Some (Inr records)"
    by (simp add: get_linked_records_def)
qed

text \<open>
  The link endpoint answers {"Id": 7}. A column with linked_table_id = Invoices reads the
  table Invoices although a table titled like the column comes first in the base; a
  column without it reads the table Orders, or the table Order when no table is titled
  Orders; with neither the call fails and names the column.
\<close>

theorem linked_table_resolution_witness:
  "linked_table
     (link_server (body (JObj [(''Id'', JInt 7)])) (\<lambda>t. list_endpoint [row 7, row 9])
        [titled ''Orders'', titled ''Invoices''])
     (customer []) (link_column ''Orders'' (Some ''Invoices''))
   = Inr (titled ''Invoices'')
   \<and> get_linked_records
     (link_server (body (JObj [(''Id'', JInt 7)])) (\<lambda>t. list_endpoint [row 7, row 9])
        [titled ''Orders'', titled ''Invoices''])
     (customer []) (link_column ''Orders'' (Some ''Invoices''))
   = Some (Inr [\<lparr>record_table = titled ''Invoices'', record_id = JInt 7,
                  metadata = [(''Id'', JInt 7)]\<rparr>])
   \<and> get_linked_records
       (link_server (body (JObj [(''Id'', JInt 7)])) (\<lambda>t. list_endpoint [row 7, row 9])
          [titled ''Invoices'', titled ''Orders''])
       (customer []) (link_column ''Orders'' None)
     = Some (Inr [\<lparr>record_table = titled ''Orders'', record_id = JInt 7,
                    metadata = [(''Id'', JInt 7)]\<rparr>])
   \<and> get_linked_records
       (link_server (body (JObj [(''Id'', JInt 7)])) (\<lambda>t. list_endpoint [row 7, row 9])
          [titled ''Invoices'', titled ''Order''])
       (customer []) (link_column ''Orders'' None)
     = Some (Inr [\<lparr>record_table = titled ''Order'', record_id = JInt 7,
                    metadata = [(''Id'', JInt 7)]\<rparr>])
   \<and> get_linked_records
       (link_server (body (JObj [(''Id'', JInt 7)])) (\<lambda>t. list_endpoint [row 7, row 9])
          [titled ''Invoices''])
       (customer []) (link_column ''Orders'' None)
     = Some (Inl (Exception ''Could not determine linked table for column Orders''))"
proof -
  let ?nc = "link_server (body (JObj [(''Id'', JInt 7)])) (\<lambda>t. list_endpoint [row 7, row 9])"
  let ?resp = "Response (Some (JObj [(''Id'', JInt 7)]))"
  let ?r = "customer []"
  let ?b = "\<lparr>base_ident = ''b''\<rparr>"
  have call: "\<And>ts col. call_noco (?nc ts) (link_request ?r col) = Inr ?resp"
    by (simp add: link_server_def example_client_def body_def link_request_def)
  have ids: "\<And>col. response_ids ?resp ?r col = Some (Inr [7])"
    by (simp add: response_ids_def gather_ids_def common_formats_def)
  have ne: "[7 :: int] \<noteq> []"
    by simp
  have gb: "\<And>ts. get_base (?nc ts) (base_id (record_table ?r)) = Inr ?b"
    by (simp add: link_server_def example_client_def customer_def titled_def)
  have gt: "\<And>ts. get_tables (?nc ts) ?b = Inr ts"
    by (simp add: link_server_def example_client_def)
  have fetch: "\<And>ts t. map_option snd (get_records_by_id (?nc ts) (titled t) (map JInt [7]))
                 = Some (Inr [\<lparr>record_table = titled t, record_id = JInt 7,
                                metadata = [(''Id'', JInt 7)]\<rparr>])"
  proof -
    fix ts t
    have "fetch_page (?nc ts) (titled t)
            [(''where'', PIdIn [JInt 7]), (''offset'', PInt 0), (''limit'', PInt 1000)]
          = Inr ([\<lparr>record_table = titled t, record_id = JInt 7,
                    metadata = [(''Id'', JInt 7)]\<rparr>], True)"
      by (simp add: fetch_page_def link_server_def example_client_def records_request_def
            list_endpoint_def selected_def row_def list_page_def page_records_def
            is_last_page_def)
    then show "map_option snd (get_records_by_id (?nc ts) (titled t) (map JInt [7]))
                 = Some (Inr [\<lparr>record_table = titled t, record_id = JInt 7,
                                metadata = [(''Id'', JInt 7)]\<rparr>])"
      by (simp add: get_records_by_id_def get_records_def get_records_loop.simps)
  qed
  have h1: "linked_table_id (link_column ''Orders'' (Some ''Invoices'')) = Some ''Invoices''
            \<and> get_table (?nc [titled ''Orders'', titled ''Invoices'']) ''Invoices''
              = Inr (titled ''Invoices'')"
    by (simp add: link_column_def link_server_def example_client_def lookup_table_def
          titled_def)
  from linked_table_resolution [where nc = "?nc [titled ''Orders'', titled ''Invoices'']"
      and col = "link_column ''Orders'' (Some ''Invoices'')" and i = "''Invoices''"
      and t = "titled ''Invoices''", OF call ids ne] h1
  have "linked_records_try (?nc [titled ''Orders'', titled ''Invoices'']) ?r
          (link_column ''Orders'' (Some ''Invoices''))
        = map_option snd
            (get_records_by_id (?nc [titled ''Orders'', titled ''Invoices''])
               (titled ''Invoices'') (map JInt [7]))"
    by blast
  then have "linked_records_try (?nc [titled ''Orders'', titled ''Invoices'']) ?r
          (link_column ''Orders'' (Some ''Invoices''))
        = Some (Inr [\<lparr>record_table = titled ''Invoices'', record_id = JInt 7,
                       metadata = [(''Id'', JInt 7)]\<rparr>])"
    by (simp only: fetch)
  with linked_table_resolution [where nc = "?nc [titled ''Orders'', titled ''Invoices'']"
      and col = "link_column ''Orders'' (Some ''Invoices'')", OF call ids ne]
  have 1: "get_linked_records (?nc [titled ''Orders'', titled ''Invoices'']) ?r
          (link_column ''Orders'' (Some ''Invoices''))
        = Some (Inr [\<lparr>record_table = titled ''Invoices'', record_id = JInt 7,
                       metadata = [(''Id'', JInt 7)]\<rparr>])"
    by blast
  from linked_table_resolution [where nc = "?nc [titled ''Orders'', titled ''Invoices'']"
      and col = "link_column ''Orders'' (Some ''Invoices'')" and i = "''Invoices''",
      OF call ids ne] h1
  have 0: "linked_table (?nc [titled ''Orders'', titled ''Invoices'']) ?r
             (link_column ''Orders'' (Some ''Invoices'')) = Inr (titled ''Invoices'')"
    by simp
  have h2: "linked_table_id (link_column ''Orders'' None) = None
            \<and> get_base (?nc [titled ''Invoices'', titled ''Orders'']) (base_id (record_table ?r))
              = Inr ?b
            \<and> get_tables (?nc [titled ''Invoices'', titled ''Orders'']) ?b
              = Inr ([titled ''Invoices''] @ titled ''Orders'' # [])
            \<and> (\<forall>t' \<in> set [titled ''Invoices''].
                  table_title t' \<noteq> column_title (link_column ''Orders'' None))
            \<and> table_title (titled ''Orders'') = column_title (link_column ''Orders'' None)"
    using gb gt by (simp add: link_column_def titled_def)
  from linked_table_resolution [where nc = "?nc [titled ''Invoices'', titled ''Orders'']"
      and col = "link_column ''Orders'' None" and b = ?b and pre = "[titled ''Invoices'']"
      and t = "titled ''Orders''" and post = "[]", OF call ids ne] h2
  have "linked_records_try (?nc [titled ''Invoices'', titled ''Orders'']) ?r
          (link_column ''Orders'' None)
        = map_option snd
            (get_records_by_id (?nc [titled ''Invoices'', titled ''Orders''])
               (titled ''Orders'') (map JInt [7]))"
    by blast
  then have "linked_records_try (?nc [titled ''Invoices'', titled ''Orders'']) ?r
          (link_column ''Orders'' None)
        = Some (Inr [\<lparr>record_table = titled ''Orders'', record_id = JInt 7,
                       metadata = [(''Id'', JInt 7)]\<rparr>])"
    by (simp only: fetch)
  with linked_table_resolution [where nc = "?nc [titled ''Invoices'', titled ''Orders'']"
      and col = "link_column ''Orders'' None", OF call ids ne]
  have 2: "get_linked_records (?nc [titled ''Invoices'', titled ''Orders'']) ?r
          (link_column ''Orders'' None)
        = Some (Inr [\<lparr>record_table = titled ''Orders'', record_id = JInt 7,
                       metadata = [(''Id'', JInt 7)]\<rparr>])"
    by blast
  have h3: "linked_table_id (link_column ''Orders'' None) = None
            \<and> get_base (?nc [titled ''Invoices'', titled ''Order'']) (base_id (record_table ?r))
              = Inr ?b
            \<and> get_tables (?nc [titled ''Invoices'', titled ''Order'']) ?b
              = Inr ([titled ''Invoices''] @ titled ''Order'' # [])
            \<and> (\<forall>t' \<in> set ([titled ''Invoices''] @ titled ''Order'' # []).
                  table_title t' \<noteq> column_title (link_column ''Orders'' None))
            \<and> endswith_s (column_title (link_column ''Orders'' None))
            \<and> (\<forall>t' \<in> set [titled ''Invoices''].
                  table_title t' \<noteq> butlast (column_title (link_column ''Orders'' None)))
            \<and> table_title (titled ''Order'')
              = butlast (column_title (link_column ''Orders'' None))"
    using gb gt by (simp add: link_column_def titled_def endswith_s_def)
  from linked_table_resolution [where nc = "?nc [titled ''Invoices'', titled ''Order'']"
      and col = "link_column ''Orders'' None" and b = ?b and pre = "[titled ''Invoices'']"
      and t = "titled ''Order''" and post = "[]", OF call ids ne] h3
  have "linked_records_try (?nc [titled ''Invoices'', titled ''Order'']) ?r
          (link_column ''Orders'' None)
        = map_option snd
            (get_records_by_id (?nc [titled ''Invoices'', titled ''Order''])
               (titled ''Order'') (map JInt [7]))"
    by blast
  then have "linked_records_try (?nc [titled ''Invoices'', titled ''Order'']) ?r
          (link_column ''Orders'' None)
        = Some (Inr [\<lparr>record_table = titled ''Order'', record_id = JInt 7,
                       metadata = [(''Id'', JInt 7)]\<rparr>])"
    by (simp only: fetch)
  with linked_table_resolution [where nc = "?nc [titled ''Invoices'', titled ''Order'']"
      and col = "link_column ''Orders'' None", OF call ids ne]
  have 3: "get_linked_records (?nc [titled ''Invoices'', titled ''Order'']) ?r
          (link_column ''Orders'' None)
        = Some (Inr [\<lparr>record_table = titled ''Order'', record_id = JInt 7,
                       metadata = [(''Id'', JInt 7)]\<rparr>])"
    by blast
  have h4: "linked_table_id (link_column ''Orders'' None) = None
            \<and> get_base (?nc [titled ''Invoices'']) (base_id (record_table ?r)) = Inr ?b
            \<and> get_tables (?nc [titled ''Invoices'']) ?b = Inr [titled ''Invoices'']
            \<and> (\<forall>t' \<in> set [titled ''Invoices''].
                  table_title t' \<noteq> column_title (link_column ''Orders'' None)
                  \<and> (endswith_s (column_title (link_column ''Orders'' None))
                       \<longrightarrow> table_title t'
                            \<noteq> butlast (column_title (link_column ''Orders'' None))))"
    using gb gt by (simp add: link_column_def titled_def)
  have k: "foreign_key ?r (link_column ''Orders'' None) = None"
    by code_simp
  from linked_table_resolution [where nc = "?nc [titled ''Invoices'']"
      and col = "link_column ''Orders'' None" and b = ?b and ts = "[titled ''Invoices'']",
      OF call ids ne] h4
  have "get_linked_records (?nc [titled ''Invoices'']) ?r (link_column ''Orders'' None)
        = Some (Inl (Exception
            ((if foreign_key ?r (link_column ''Orders'' None) = None
              then ''Could not determine linked table for column ''
              else ''Could not find linked table: '')
             @ column_title (link_column ''Orders'' None))))"
    by blast
  with k have 4: "get_linked_records (?nc [titled ''Invoices'']) ?r (link_column ''Orders'' None)
        = Some (Inl (Exception ''Could not determine linked table for column Orders''))"
    by (simp add: link_column_def)
  from 0 1 2 3 4 show ?thesis by blast
qed

section \<open>Table.get_records: the pages\<close>

lemma update_update_other:
  "a \<noteq> b \<Longrightarrow> AList.update a v' (AList.update b l (AList.update a v al))
                = AList.update b l (AList.update a v' al)"
  by (induction al) auto

lemma advance_page_params:
  "advance_offset (page_params params k) = Inr (page_params params (Suc k))"
proof -
  have "map_of (page_params params k) ''offset'' = Some (PInt (1000 * int k))"
    by (simp add: page_params_def update_conv')
  moreover have "map_of (page_params params k) ''limit'' = Some (PInt 1000)"
    by (simp add: page_params_def update_conv')
  moreover have "AList.update ''offset'' (PInt (1000 * int k + 1000)) (page_params params k)
                 = page_params params (Suc k)"
    by (simp add: page_params_def update_update_other algebra_simps)
  ultimately show ?thesis
    by (simp add: advance_offset_def)
qed

lemma loop_continues:
  assumes "fetch_page nc tb (page_params params j) = Inr (recs, False)"
  shows "get_records_loop nc tb True (page_params params j) records sent
         = get_records_loop nc tb True (page_params params (Suc j)) (records @ recs)
             (sent @ [records_request tb (page_params params j)])"
  by (subst get_records_loop.simps) (simp add: assms advance_page_params)

lemma loop_pages:
  assumes "\<forall>k<n. fetch_page nc tb (page_params params (j + k)) = Inr (pages (j + k), False)"
  shows "get_records_loop nc tb True (page_params params j) records sent
         = get_records_loop nc tb True (page_params params (j + n))
             (records @ concat (map pages [j..<j + n]))
             (sent @ map (\<lambda>k. records_request tb (page_params params k)) [j..<j + n])"
  using assms
proof (induction n arbitrary: j records sent)
  case 0
  then show ?case by simp
next
  case (Suc n)
  from Suc.prems have first: "fetch_page nc tb (page_params params j) = Inr (pages j, False)"
    by (metis add.right_neutral zero_less_Suc)
  from Suc.prems have rest:
    "\<forall>k<n. fetch_page nc tb (page_params params (Suc j + k)) = Inr (pages (Suc j + k), False)"
    by (metis Suc_less_eq add_Suc_shift)
  have split: "[j..<j + Suc n] = j # [Suc j..<Suc j + n]"
    by (simp add: upt_conv_Cons)
  show ?case
    by (simp only: loop_continues [OF first] Suc.IH [OF rest] split) simp
qed

lemma loop_last:
  assumes "fetch_page nc tb params = Inr (recs, True)"
  shows "get_records_loop nc tb get_all params records sent
         = Some (sent @ [records_request tb params], Inr (records @ recs))"
  by (subst get_records_loop.simps) (simp add: assms)

lemma loop_bounded:
  "get_records_loop nc tb False params records sent
   = Some (sent @ [records_request tb params],
           case fetch_page nc tb params of Inl e \<Rightarrow> Inl e | Inr page \<Rightarrow> Inr (records @ fst page))"
  by (subst get_records_loop.simps) (simp split: sum.splits)

lemma get_records_all:
  assumes "''offset'' \<notin> set (map fst params)" and "''limit'' \<notin> set (map fst params)"
    and "\<forall>k<n. fetch_page nc tb (page_params params k) = Inr (pages k, False)"
    and "fetch_page nc tb (page_params params n) = Inr (pages n, True)"
  shows "get_records nc tb (Some params)
         = Some (page_requests tb params (Suc n), Inr (concat (map pages [0..<Suc n])))"
proof -
  have "get_records nc tb (Some params) = get_records_loop nc tb True (page_params params 0) [] []"
    using assms(1,2) by (simp add: get_records_def page_params_def)
  also have "\<dots> = get_records_loop nc tb True (page_params params n)
                     (concat (map pages [0..<n]))
                     (map (\<lambda>k. records_request tb (page_params params k)) [0..<n])"
    using loop_pages [of n nc tb params 0 pages "[]" "[]"] assms(3) by simp
  also have "\<dots> = Some (page_requests tb params (Suc n), Inr (concat (map pages [0..<Suc n])))"
    by (simp add: loop_last [OF assms(4)] page_requests_def)
  finally show ?thesis .
qed


lemma loop_sent:
  assumes "get_records_loop nc tb get_all params records sent = Some y"
  shows "\<exists>more. fst y = sent @ records_request tb params # more"
proof (rule get_records_loop.raw_induct
    [where P = "\<lambda>nc tb get_all params records sent y.
                  \<exists>more. fst y = sent @ records_request tb params # more",
     OF _ assms], goal_cases)
  case (1 loop nc tb get_all params records sent y)
  show ?case
  proof (cases "fetch_page nc tb params")
    case (Inl e)
    with 1(2) show ?thesis by auto
  next
    case (Inr page)
    show ?thesis
    proof (cases "snd page \<or> \<not> get_all")
      case True
      with Inr 1(2) show ?thesis by (auto split: if_splits)
    next
      case False
      show ?thesis
      proof (cases "advance_offset params")
        case (Inl e)
        with Inr False 1(2) show ?thesis by auto
      next
        case adv: (Inr params')
        with Inr False 1(2)
        have "loop nc tb get_all params' (records @ fst page)
                (sent @ [records_request tb params]) = Some y"
          by simp
        from 1(1) [OF this] show ?thesis by auto
      qed
    qed
  qed
qed

lemma map_err_rows: "map_err (new_Record tb) (map row ids) = Inr (map (record_of tb) ids)"
  by (induction ids) (simp_all add: row_def record_of_def)

lemma fetch_list_server:
  "fetch_page (list_server (map row ids)) tb (page_params [] k)
   = Inr (map (record_of tb) (take 1000 (drop (1000 * k) ids)), length ids \<le> 1000 * k + 1000)"
proof -
  have p: "page_params [] k = [(''offset'', PInt (1000 * int k)), (''limit'', PInt 1000)]"
    by (simp add: page_params_def)
  have n: "nat (1000 * int k) = 1000 * k"
    by (simp add: nat_mult_distrib)
  have le: "(int (length ids) \<le> 1000 * int k + 1000) = (length ids \<le> 1000 * k + 1000)"
    by linarith
  have c: "call_noco (list_server (map row ids)) (records_request tb (page_params [] k))
           = Inr (list_page (map row (take 1000 (drop (1000 * k) ids)))
                    (length ids \<le> 1000 * k + 1000))"
    unfolding p
    by (simp add: list_server_def example_client_def records_request_def list_endpoint_def
          selected_def n take_map drop_map le)
  show ?thesis
    by (simp add: fetch_page_def c list_page_def page_records_def is_last_page_def map_err_rows)
qed

lemma concat_chunks:
  "concat (map (\<lambda>k. take p (drop (p * k) xs)) [0..<m]) = take (p * m) xs"
proof (induction m)
  case 0
  then show ?case by simp
next
  case (Suc m)
  have "concat (map (\<lambda>k. take p (drop (p * k) xs)) [0..<Suc m])
        = concat (map (\<lambda>k. take p (drop (p * k) xs)) [0..<m]) @ take p (drop (p * m) xs)"
    by simp
  also have "\<dots> = take (p * m) xs @ take p (drop (p * m) xs)"
    by (simp only: Suc)
  also have "\<dots> = take (p * m + p) xs"
    by (simp only: take_add)
  also have "p * m + p = p * Suc m"
    by simp
  finally show ?case .
qed

lemma get_records_list_server:
  "get_records (list_server (map row ids)) tb None
   = Some (page_requests tb [] (max 1 (pages_needed (length ids) 1000)),
           Inr (map (record_of tb) ids))"
proof -
  define n where "n = max 1 (pages_needed (length ids) 1000) - 1"
  let ?pages = "\<lambda>k. map (record_of tb) (take 1000 (drop (1000 * k) ids))"
  have sn: "Suc n = max 1 (pages_needed (length ids) 1000)"
    by (simp add: n_def)
  have early: "\<forall>k<n. fetch_page (list_server (map row ids)) tb (page_params [] k)
                      = Inr (?pages k, False)"
  proof (intro allI impI)
    fix k assume "k < n"
    then have "\<not> length ids \<le> 1000 * k + 1000"
      unfolding n_def pages_needed_def by (auto simp: max_def split: if_splits)
    then show "fetch_page (list_server (map row ids)) tb (page_params [] k)
                      = Inr (?pages k, False)"
      by (simp add: fetch_list_server)
  qed
  have "length ids \<le> 1000 * n + 1000"
    unfolding n_def pages_needed_def by (auto simp: max_def split: if_splits)
  then have final: "fetch_page (list_server (map row ids)) tb (page_params [] n)
                    = Inr (?pages n, True)"
    by (simp add: fetch_list_server)
  have all: "concat (map ?pages [0..<Suc n]) = map (record_of tb) ids"
  proof -
    have "concat (map ?pages [0..<Suc n])
          = map (record_of tb) (concat (map (\<lambda>k. take 1000 (drop (1000 * k) ids)) [0..<Suc n]))"
      by (simp only: map_concat map_map comp_def)
    also have "\<dots> = map (record_of tb) (take (1000 * Suc n) ids)"
      by (simp only: concat_chunks)
    also have "\<dots> = map (record_of tb) ids"
      using \<open>length ids \<le> 1000 * n + 1000\<close> by simp
    finally show ?thesis .
  qed
  from all have all':
    "concat (map ?pages [0..<max 1 (pages_needed (length ids) 1000)]) = map (record_of tb) ids"
    unfolding sn .
  have "get_records (list_server (map row ids)) tb None
        = get_records (list_server (map row ids)) tb (Some [])"
    by (simp add: get_records_def)
  also have "\<dots> = Some (page_requests tb [] (Suc n), Inr (concat (map ?pages [0..<Suc n])))"
    by (rule get_records_all [OF _ _ early final]) simp_all
  finally show ?thesis
    unfolding sn all' .
qed


lemma loop_never_last:
  assumes "\<forall>k. fetch_page nc tb (page_params params k) = Inr (pages k, False)"
  shows "get_records_loop nc tb True (page_params params j) records sent = None"
proof (rule ccontr)
  assume "get_records_loop nc tb True (page_params params j) records sent \<noteq> None"
  then obtain y where y: "get_records_loop nc tb True (page_params params j) records sent = Some y"
    by blast
  have "\<not> (nc = nc \<and> tb = tb \<and> True \<and> (\<exists>k. page_params params j = page_params params k))"
  proof (rule get_records_loop.raw_induct
      [where P = "\<lambda>nc' tb' get_all ps records sent y.
                    \<not> (nc' = nc \<and> tb' = tb \<and> get_all \<and> (\<exists>k. ps = page_params params k))",
       OF _ y], goal_cases)
    case (1 loop nc' tb' get_all ps records sent y)
    show ?case
    proof
      assume "nc' = nc \<and> tb' = tb \<and> get_all \<and> (\<exists>k. ps = page_params params k)"
      then obtain k where k: "nc' = nc" "tb' = tb" "get_all" "ps = page_params params k"
        by blast
      from assms have "fetch_page nc tb (page_params params k) = Inr (pages k, False)"
        by blast
      with 1(2) k
      have "loop nc tb True (page_params params (Suc k)) (records @ pages k)
              (sent @ [records_request tb (page_params params k)]) = Some y"
        by (simp add: advance_page_params)
      from 1(1) [OF this] show False by blast
    qed
  qed
  then show False by blast
qed

text \<open>
  C6, as the claim states it, fails for a table without rows: the loop asks for a page
  before it tests anything, so an empty table costs one request, while the claim's count
  for N = 0 is 0.
\<close>

theorem empty_table_one_request:
  "get_records (list_server []) (titled ''Orders'') None
   = Some ([records_request (titled ''Orders'') [(''offset'', PInt 0), (''limit'', PInt 1000)]],
           Inr [])
   \<and> pages_needed 0 1000 = 0"
  by code_simp

text \<open>
  C6, amended. With offset or limit among the parameters exactly one request is sent and
  the result is that page's rows, whatever its isLastPage says. With neither, page \<open>k\<close>
  is asked for with offset 1000 * k and limit 1000, whatever the pages before held; the
  loop stops at the first page that reports isLastPage and returns all rows so far, and
  it does not stop as long as no page reports it (empty pages included). For a server
  that serves the 1000 rows asked for and reports the last page when no row lies beyond,
  N rows come back in max 1 (ceil (N / 1000)) requests.
\<close>

theorem get_records_pages:
  "(''offset'' \<in> set (map fst params) \<or> ''limit'' \<in> set (map fst params)
      \<longrightarrow> get_records nc tb (Some params)
            = Some ([records_request tb params],
                    case fetch_page nc tb params of
                      Inl e \<Rightarrow> Inl e
                    | Inr page \<Rightarrow> Inr (fst page)))
   \<and> (''offset'' \<notin> set (map fst params) \<and> ''limit'' \<notin> set (map fst params)
        \<and> (\<forall>k<n. fetch_page nc tb (page_params params k) = Inr (pages k, False))
        \<and> fetch_page nc tb (page_params params n) = Inr (pages n, True)
      \<longrightarrow> get_records nc tb (Some params)
            = Some (page_requests tb params (Suc n), Inr (concat (map pages [0..<Suc n]))))
   \<and> (''offset'' \<notin> set (map fst params) \<and> ''limit'' \<notin> set (map fst params)
        \<and> (\<forall>k. fetch_page nc tb (page_params params k) = Inr (pages k, False))
      \<longrightarrow> get_records nc tb (Some params) = None)
   \<and> get_records nc tb None = get_records nc tb (Some [])
   \<and> get_records (list_server (map row ids)) tb None
     = Some (page_requests tb [] (max 1 (pages_needed (length ids) 1000)),
             Inr (map (record_of tb) ids))
   \<and> length (page_requests tb [] (max 1 (pages_needed (length ids) 1000)))
     = max 1 (pages_needed (length ids) 1000)"
proof (intro conjI impI)
  assume "''offset'' \<in> set (map fst params) \<or> ''limit'' \<in> set (map fst params)"
  then have "get_records nc tb (Some params) = get_records_loop nc tb False params [] []"
    by (auto simp: get_records_def)
  then show "get_records nc tb (Some params)
            = Some ([records_request tb params],
                    case fetch_page nc tb params of
                      Inl e \<Rightarrow> Inl e
                    | Inr page \<Rightarrow> Inr (fst page))"
    by (simp add: loop_bounded split: sum.splits)
next
  assume "''offset'' \<notin> set (map fst params) \<and> ''limit'' \<notin> set (map fst params)
        \<and> (\<forall>k<n. fetch_page nc tb (page_params params k) = Inr (pages k, False))
        \<and> fetch_page nc tb (page_params params n) = Inr (pages n, True)"
  then show "get_records nc tb (Some params)
            = Some (page_requests tb params (Suc n), Inr (concat (map pages [0..<Suc n])))"
    by (intro get_records_all) blast+
next
  assume a: "''offset'' \<notin> set (map fst params) \<and> ''limit'' \<notin> set (map fst params)
        \<and> (\<forall>k. fetch_page nc tb (page_params params k) = Inr (pages k, False))"
  then have "get_records nc tb (Some params) = get_records_loop nc tb True (page_params params 0) [] []"
    by (simp add: get_records_def page_params_def)
  moreover from a have "\<forall>k. fetch_page nc tb (page_params params k) = Inr (pages k, False)"
    by blast
  then have "get_records_loop nc tb True (page_params params 0) [] [] = None"
    by (rule loop_never_last)
  ultimately show "get_records nc tb (Some params) = None"
    by simp
next
  show "get_records nc tb None = get_records nc tb (Some [])"
    by (simp add: get_records_def)
next
  show "get_records (list_server (map row ids)) tb None
     = Some (page_requests tb [] (max 1 (pages_needed (length ids) 1000)),
             Inr (map (record_of tb) ids))"
    by (rule get_records_list_server)
next
  show "length (page_requests tb [] (max 1 (pages_needed (length ids) 1000)))
     = max 1 (pages_needed (length ids) 1000)"
    by (simp add: page_requests_def)
qed


text \<open>
  One page asked for by offset and limit; a server with a short and an empty page before
  the last one; a server that never reports the last page; three rows in one request.
\<close>

theorem get_records_pages_witness:
  "get_records (list_server [row 1, row 2, row 3]) (titled ''Orders'')
     (Some [(''offset'', PInt 1), (''limit'', PInt 1)])
   = Some ([records_request (titled ''Orders'') [(''offset'', PInt 1), (''limit'', PInt 1)]],
           Inr [record_of (titled ''Orders'') 2])
   \<and> get_records sparse_server (titled ''Orders'') (Some [])
     = Some (page_requests (titled ''Orders'') [] 3,
             Inr [record_of (titled ''Orders'') 1, record_of (titled ''Orders'') 2])
   \<and> get_records endless_server (titled ''Orders'') (Some []) = None
   \<and> get_records (list_server [row 1, row 2, row 3]) (titled ''Orders'') None
     = Some (page_requests (titled ''Orders'') [] 1,
             Inr [record_of (titled ''Orders'') 1, record_of (titled ''Orders'') 2,
                  record_of (titled ''Orders'') 3])"
proof -
  let ?tb = "titled ''Orders''"
  let ?one = "[(''offset'', PInt 1), (''limit'', PInt 1)]"
  let ?pages = "\<lambda>k :: nat. if k = 0 then [record_of ?tb 1]
                           else if k = 2 then [record_of ?tb 2] else []"
  have keys: "''offset'' \<in> set (map fst ?one) \<or> ''limit'' \<in> set (map fst ?one)"
    by simp
  have one: "fetch_page (list_server [row 1, row 2, row 3]) ?tb ?one
             = Inr ([record_of ?tb 2], False)"
    by code_simp
  have no_keys: "''offset'' \<notin> set (map fst ([] :: (string \<times> param) list))
                 \<and> ''limit'' \<notin> set (map fst ([] :: (string \<times> param) list))"
    by simp
  have p0: "fetch_page sparse_server ?tb (page_params [] 0) = Inr (?pages 0, False)"
    by code_simp
  have p1: "fetch_page sparse_server ?tb (page_params [] 1) = Inr (?pages 1, False)"
    by code_simp
  have p2: "fetch_page sparse_server ?tb (page_params [] 2) = Inr (?pages 2, True)"
    by code_simp
  from p0 p1 have early: "\<forall>k<2. fetch_page sparse_server ?tb (page_params [] k)
                                  = Inr (?pages k, False)"
    by (simp add: less_Suc_eq numeral_2_eq_2)
  have all: "concat (map ?pages [0..<Suc 2]) = [record_of ?tb 1, record_of ?tb 2]"
    by (simp add: upt_conv_Cons)
  have endless: "\<forall>k. fetch_page endless_server ?tb (page_params [] k) = Inr ([], False)"
    by (simp add: fetch_page_def endless_server_def example_client_def endless_endpoint_def
          list_page_def page_records_def is_last_page_def)
  have three: "[row 1, row 2, row 3] = map row [1, 2, 3]"
    by simp
  have needed: "max 1 (pages_needed (length [1, 2, 3 :: int]) 1000) = 1"
    by (simp add: pages_needed_def)
  from get_records_pages [of ?one "list_server [row 1, row 2, row 3]" ?tb] keys one
  have 1: "get_records (list_server [row 1, row 2, row 3]) ?tb (Some ?one)
           = Some ([records_request ?tb ?one], Inr [record_of ?tb 2])"
    by simp
  from get_records_pages [of "[]" sparse_server ?tb 2 ?pages] no_keys early p2
  have "get_records sparse_server ?tb (Some [])
        = Some (page_requests ?tb [] (Suc 2), Inr (concat (map ?pages [0..<Suc 2])))"
    by blast
  then have 2: "get_records sparse_server ?tb (Some [])
        = Some (page_requests ?tb [] 3, Inr [record_of ?tb 1, record_of ?tb 2])"
    by (simp only: all) simp
  from get_records_pages [of "[]" endless_server ?tb _ "\<lambda>k. []"] no_keys endless
  have 3: "get_records endless_server ?tb (Some []) = None"
    by blast
  from get_records_pages [of "[]" "list_server []" ?tb _ _ "[1, 2, 3]"]
  have "get_records (list_server (map row [1, 2, 3])) ?tb None
        = Some (page_requests ?tb [] (max 1 (pages_needed (length [1, 2, 3 :: int]) 1000)),
                Inr (map (record_of ?tb) [1, 2, 3]))"
    by blast
  then have 4: "get_records (list_server [row 1, row 2, row 3]) ?tb None
        = Some (page_requests ?tb [] 1,
                Inr [record_of ?tb 1, record_of ?tb 2, record_of ?tb 3])"
    by (simp only: needed three [symmetric]) simp
  from 1 2 3 4 show ?thesis by blast
qed

section \<open>Table.get_records_by_id\<close>

lemma selected_rows:
  "selected (page_params [(''where'', PIdIn S)] k) (map row ids)
   = map row (filter (\<lambda>i. JInt i \<in> set S) ids)"
  by (induction ids) (simp_all add: selected_def page_params_def row_def)

lemma fetch_list_server_where:
  "fetch_page (list_server (map row ids)) tb (page_params [(''where'', PIdIn S)] k)
   = Inr (map (record_of tb) (take 1000 (drop (1000 * k) (filter (\<lambda>i. JInt i \<in> set S) ids))),
          length (filter (\<lambda>i. JInt i \<in> set S) ids) \<le> 1000 * k + 1000)"
proof -
  let ?m = "filter (\<lambda>i. JInt i \<in> set S) ids"
  have o: "map_of (page_params [(''where'', PIdIn S)] k) ''offset'' = Some (PInt (1000 * int k))"
    by (simp add: page_params_def)
  have l: "map_of (page_params [(''where'', PIdIn S)] k) ''limit'' = Some (PInt 1000)"
    by (simp add: page_params_def)
  have n: "nat (1000 * int k) = 1000 * k"
    by (simp add: nat_mult_distrib)
  have le: "(int (length ?m) \<le> 1000 * int k + 1000) = (length ?m \<le> 1000 * k + 1000)"
    by linarith
  have c: "call_noco (list_server (map row ids))
             (records_request tb (page_params [(''where'', PIdIn S)] k))
           = Inr (list_page (map row (take 1000 (drop (1000 * k) ?m)))
                    (length ?m \<le> 1000 * k + 1000))"
    by (simp add: list_server_def example_client_def records_request_def list_endpoint_def
          o l selected_rows n take_map drop_map le)
  show ?thesis
    by (simp add: fetch_page_def c list_page_def page_records_def is_last_page_def map_err_rows)
qed

lemma get_records_paged:
  assumes keys: "''offset'' \<notin> set (map fst params)" "''limit'' \<notin> set (map fst params)"
    and pages: "\<And>k. fetch_page nc tb (page_params params k)
                     = Inr (map (record_of tb) (take 1000 (drop (1000 * k) m)),
                            length m \<le> 1000 * k + 1000)"
  shows "get_records nc tb (Some params)
         = Some (page_requests tb params (max 1 (pages_needed (length m) 1000)),
                 Inr (map (record_of tb) m))"
proof -
  define n where "n = max 1 (pages_needed (length m) 1000) - 1"
  let ?pages = "\<lambda>k. map (record_of tb) (take 1000 (drop (1000 * k) m))"
  have sn: "Suc n = max 1 (pages_needed (length m) 1000)"
    by (simp add: n_def)
  have early: "\<forall>k<n. fetch_page nc tb (page_params params k) = Inr (?pages k, False)"
  proof (intro allI impI)
    fix k assume "k < n"
    then have "\<not> length m \<le> 1000 * k + 1000"
      unfolding n_def pages_needed_def by (auto simp: max_def split: if_splits)
    then show "fetch_page nc tb (page_params params k) = Inr (?pages k, False)"
      by (simp add: pages)
  qed
  have last: "length m \<le> 1000 * n + 1000"
    unfolding n_def pages_needed_def by (auto simp: max_def split: if_splits)
  then have final: "fetch_page nc tb (page_params params n) = Inr (?pages n, True)"
    by (simp add: pages)
  have "concat (map ?pages [0..<Suc n])
        = map (record_of tb) (concat (map (\<lambda>k. take 1000 (drop (1000 * k) m)) [0..<Suc n]))"
    by (simp only: map_concat map_map comp_def)
  also have "\<dots> = map (record_of tb) (take (1000 * Suc n) m)"
    by (simp only: concat_chunks)
  also have "\<dots> = map (record_of tb) m"
    using last by simp
  finally have all: "concat (map ?pages [0..<Suc n]) = map (record_of tb) m" .
  have "get_records nc tb (Some params)
        = Some (page_requests tb params (Suc n), Inr (concat (map ?pages [0..<Suc n])))"
    by (rule get_records_all [OF keys early final])
  then have "get_records nc tb (Some params)
        = Some (page_requests tb params (Suc n), Inr (map (record_of tb) m))"
    by (simp only: all)
  then show ?thesis
    by (simp only: sn)
qed

lemma get_records_by_id_list_server:
  "get_records_by_id (list_server (map row ids)) tb S
   = Some (page_requests tb [(''where'', PIdIn S)]
             (max 1 (pages_needed (length (filter (\<lambda>i. JInt i \<in> set S) ids)) 1000)),
           Inr (map (record_of tb) (filter (\<lambda>i. JInt i \<in> set S) ids)))"
  unfolding get_records_by_id_def
  by (rule get_records_paged) (simp_all add: fetch_list_server_where)

lemma selected_at_most:
  assumes "distinct ids"
  shows "length (filter (\<lambda>i. JInt i \<in> set S) ids) \<le> length S"
proof -
  let ?m = "filter (\<lambda>i. JInt i \<in> set S) ids"
  from assms have "distinct ?m"
    by simp
  then have "length ?m = card (set ?m)"
    by (rule distinct_card [symmetric])
  also have "\<dots> = card (JInt ` set ?m)"
    by (simp add: card_image inj_on_def)
  also have "\<dots> \<le> card (set S)"
    by (intro card_mono) auto
  also have "\<dots> \<le> length S"
    by (rule card_length)
  finally show ?thesis .
qed

text \<open>
  C7, as the claim states it, fails for the empty list: there is no test of the list, the
  filter is built from no identifier and the listing is requested all the same.
\<close>

theorem empty_ids_one_request:
  "get_records_by_id (list_server []) (titled ''Orders'') []
   = Some ([records_request (titled ''Orders'')
              [(''where'', PIdIn []), (''offset'', PInt 0), (''limit'', PInt 1000)]],
           Inr [])"
  by code_simp

text \<open>
  C7, amended. get_records_by_id is the listing of all pages with the filter on the
  identifiers: whenever it returns, the first request (offset 0, limit 1000, the filter)
  has been sent, for the empty list too, and the result is the rows of the pages served.
  From a server that filters on Id and whose rows have distinct Ids it returns, for every
  list S, the rows whose Id is in S: at most as many records as S has identifiers, and
  for the empty list the empty list, after one request.
\<close>

theorem get_records_by_id_requests:
  "(get_records_by_id nc tb record_ids = Some (sent, result)
      \<longrightarrow> (\<exists>more. sent = records_request tb (page_params [(''where'', PIdIn record_ids)] 0)
                            # more))
   \<and> ((\<forall>k<n. fetch_page nc tb (page_params [(''where'', PIdIn record_ids)] k)
               = Inr (pages k, False))
        \<and> fetch_page nc tb (page_params [(''where'', PIdIn record_ids)] n) = Inr (pages n, True)
      \<longrightarrow> get_records_by_id nc tb record_ids
            = Some (page_requests tb [(''where'', PIdIn record_ids)] (Suc n),
                    Inr (concat (map pages [0..<Suc n]))))
   \<and> get_records_by_id (list_server (map row ids)) tb record_ids
     = Some (page_requests tb [(''where'', PIdIn record_ids)]
               (max 1 (pages_needed (length (filter (\<lambda>i. JInt i \<in> set record_ids) ids)) 1000)),
             Inr (map (record_of tb) (filter (\<lambda>i. JInt i \<in> set record_ids) ids)))
   \<and> (distinct ids
      \<longrightarrow> (\<exists>sent records.
             get_records_by_id (list_server (map row ids)) tb record_ids
             = Some (sent, Inr records)
             \<and> length records \<le> length record_ids \<and> sent \<noteq> []))
   \<and> get_records_by_id (list_server (map row ids)) tb []
     = Some ([records_request tb (page_params [(''where'', PIdIn [])] 0)], Inr [])"
proof (intro conjI impI)
  assume "get_records_by_id nc tb record_ids = Some (sent, result)"
  then have "get_records_loop nc tb True (page_params [(''where'', PIdIn record_ids)] 0) [] []
             = Some (sent, result)"
    by (simp add: get_records_by_id_def get_records_def page_params_def)
  from loop_sent [OF this]
  show "\<exists>more. sent = records_request tb (page_params [(''where'', PIdIn record_ids)] 0) # more"
    by simp
next
  assume "(\<forall>k<n. fetch_page nc tb (page_params [(''where'', PIdIn record_ids)] k)
               = Inr (pages k, False))
        \<and> fetch_page nc tb (page_params [(''where'', PIdIn record_ids)] n) = Inr (pages n, True)"
  then show "get_records_by_id nc tb record_ids
            = Some (page_requests tb [(''where'', PIdIn record_ids)] (Suc n),
                    Inr (concat (map pages [0..<Suc n])))"
    unfolding get_records_by_id_def by (intro get_records_all) simp_all
next
  show "get_records_by_id (list_server (map row ids)) tb record_ids
     = Some (page_requests tb [(''where'', PIdIn record_ids)]
               (max 1 (pages_needed (length (filter (\<lambda>i. JInt i \<in> set record_ids) ids)) 1000)),
             Inr (map (record_of tb) (filter (\<lambda>i. JInt i \<in> set record_ids) ids)))"
    by (rule get_records_by_id_list_server)
next
  assume "distinct ids"
  then have "length (map (record_of tb) (filter (\<lambda>i. JInt i \<in> set record_ids) ids))
             \<le> length record_ids"
    by (simp add: selected_at_most)
  moreover have "page_requests tb [(''where'', PIdIn record_ids)]
               (max 1 (pages_needed (length (filter (\<lambda>i. JInt i \<in> set record_ids) ids)) 1000))
             \<noteq> []"
    by (simp add: page_requests_def max_def)
  ultimately show "\<exists>sent records.
             get_records_by_id (list_server (map row ids)) tb record_ids
             = Some (sent, Inr records)
             \<and> length records \<le> length record_ids \<and> sent \<noteq> []"
    using get_records_by_id_list_server [of ids tb record_ids] by blast
next
  have "page_requests tb [(''where'', PIdIn [])] (max 1 (pages_needed 0 1000))
        = [records_request tb (page_params [(''where'', PIdIn [])] 0)]"
    by (simp add: page_requests_def pages_needed_def)
  then show "get_records_by_id (list_server (map row ids)) tb []
     = Some ([records_request tb (page_params [(''where'', PIdIn [])] 0)], Inr [])"
    using get_records_by_id_list_server [of ids tb "[]"] by simp
qed


text \<open>
  The table holds the rows 7 and 9 and the server filters: asked for 9 and 8 it sends one
  row in one request, the first request of the listing; asked for nothing it sends no row,
  in one request.
\<close>

theorem get_records_by_id_requests_witness:
  "get_records_by_id (list_server [row 7, row 9]) (titled ''Orders'') [JInt 9, JInt 8]
   = Some ([records_request (titled ''Orders'')
              [(''where'', PIdIn [JInt 9, JInt 8]), (''offset'', PInt 0), (''limit'', PInt 1000)]],
           Inr [record_of (titled ''Orders'') 9])
   \<and> (\<exists>more. [records_request (titled ''Orders'')
                  [(''where'', PIdIn [JInt 9, JInt 8]), (''offset'', PInt 0),
                   (''limit'', PInt 1000)]]
               = records_request (titled ''Orders'')
                   (page_params [(''where'', PIdIn [JInt 9, JInt 8])] 0) # more)
   \<and> distinct [7, 9 :: int]
   \<and> (\<exists>sent records.
         get_records_by_id (list_server [row 7, row 9]) (titled ''Orders'') [JInt 9, JInt 8]
         = Some (sent, Inr records)
         \<and> length records \<le> length [JInt 9, JInt 8] \<and> sent \<noteq> [])
   \<and> get_records_by_id (list_server [row 7, row 9]) (titled ''Orders'') []
     = Some ([records_request (titled ''Orders'')
                [(''where'', PIdIn []), (''offset'', PInt 0), (''limit'', PInt 1000)]],
             Inr [])"
proof -
  let ?tb = "titled ''Orders''"
  let ?nc = "list_server [row 7, row 9]"
  let ?ids = "[JInt 9, JInt 8]"
  let ?pages = "\<lambda>k :: nat. [record_of ?tb 9]"
  note served = get_records_by_id_requests
    [where nc = ?nc and tb = ?tb and record_ids = ?ids and n = 0 and pages = ?pages
       and ids = "[7, 9]"]
  note first_sent = served [THEN conjunct1, THEN mp]
  note all_pages = served [THEN conjunct2, THEN conjunct1, THEN mp]
  note at_most = served
    [THEN conjunct2, THEN conjunct2, THEN conjunct2, THEN conjunct1, THEN mp]
  note for_none = served
    [THEN conjunct2, THEN conjunct2, THEN conjunct2, THEN conjunct2]
  have rows: "map row [7, 9] = [row 7, row 9]"
    by simp
  have p: "\<And>S. page_params [(''where'', PIdIn S)] 0
           = [(''where'', PIdIn S), (''offset'', PInt 0), (''limit'', PInt 1000)]"
    by (simp add: page_params_def)
  have "fetch_page ?nc ?tb [(''where'', PIdIn ?ids), (''offset'', PInt 0), (''limit'', PInt 1000)]
        = Inr ([record_of ?tb 9], True)"
    by code_simp
  then have f: "(\<forall>k<0. fetch_page ?nc ?tb (page_params [(''where'', PIdIn ?ids)] k)
                   = Inr (?pages k, False))
           \<and> fetch_page ?nc ?tb (page_params [(''where'', PIdIn ?ids)] 0) = Inr (?pages 0, True)"
    unfolding p by simp
  from all_pages [OF f]
  have "get_records_by_id ?nc ?tb ?ids
        = Some (page_requests ?tb [(''where'', PIdIn ?ids)] (Suc 0),
                Inr (concat (map ?pages [0..<Suc 0])))" .
  then have 1: "get_records_by_id ?nc ?tb ?ids
        = Some ([records_request ?tb
                   [(''where'', PIdIn ?ids), (''offset'', PInt 0), (''limit'', PInt 1000)]],
                Inr [record_of ?tb 9])"
    by (simp add: page_requests_def p)
  from first_sent [OF 1]
  have 2: "\<exists>more. [records_request ?tb
                     [(''where'', PIdIn ?ids), (''offset'', PInt 0), (''limit'', PInt 1000)]]
                  = records_request ?tb (page_params [(''where'', PIdIn ?ids)] 0) # more" .
  have d: "distinct [7, 9 :: int]"
    by simp
  from at_most [OF d]
  have 3: "\<exists>sent records. get_records_by_id ?nc ?tb ?ids = Some (sent, Inr records)
                          \<and> length records \<le> length ?ids \<and> sent \<noteq> []"
    unfolding rows .
  from for_none
  have 4: "get_records_by_id ?nc ?tb []
           = Some ([records_request ?tb
                      [(''where'', PIdIn []), (''offset'', PInt 0), (''limit'', PInt 1000)]],
                   Inr [])"
    by (simp add: p)
  from 1 2 d 3 4 show ?thesis by blast
qed

section \<open>Table.create_linked_column\<close>

lemma create_existing:
  assumes "get_columns (client_at srv w) tb False = Inr cols"
    and "find_column name cols = Some col"
  shows "create_linked_column srv w tb name target link_type
         = (Inr (Some col), [columns_request tb], w)"
  using assms by (simp add: create_linked_column_def)

lemma creation_requests_gets [simp]:
  "creation_requests (columns_request tb # sent) = creation_requests sent"
  by (simp add: creation_requests_def columns_request_def)

lemma creation_requests_post [simp]:
  "creation_requests (create_request tb name target link_type # sent)
   = Suc (creation_requests sent)"
  by (simp add: creation_requests_def create_request_def)

lemma creation_requests_nil [simp]: "creation_requests [] = 0"
  by (simp add: creation_requests_def)

lemma create_returns_column:
  assumes "create_linked_column srv w tb name target link_type = (Inr (Some col), sent, w')"
  shows "(\<exists>cols. get_columns (client_at srv w') tb False = Inr cols
                \<and> find_column name cols = Some col)
       \<and> creation_requests sent \<le> 1
       \<and> (\<forall>cols. get_columns (client_at srv w) tb False = Inr cols
                   \<and> find_column name cols = None \<longrightarrow> creation_requests sent = 1)"
  using assms
  by (auto simp: create_linked_column_def Let_def split: sum.splits option.splits if_splits)

text \<open>
  C8, as the claim states it, fails in two ways. When the re-query after the creation
  does not show the new column yet, the first call returns None and the second call sends
  a second creation request. And a system column with the requested title is not seen by
  the test for an existing column (get_columns leaves system columns out), so a creation
  request is sent although a column of that title exists.
\<close>

theorem second_creation_request:
  "fst (create_twice lagging_server [column_entry ''Id'' True] (titled ''Customers'')
          ''Orders'' (titled ''Orders'') ''hm'') = Inr None
   \<and> fst (snd (create_twice lagging_server [column_entry ''Id'' True] (titled ''Customers'')
                 ''Orders'' (titled ''Orders'') ''hm'')) = Inr None
   \<and> creation_requests
        (fst (snd (snd (create_twice lagging_server [column_entry ''Id'' True]
                          (titled ''Customers'') ''Orders'' (titled ''Orders'') ''hm'')))) = 2
   \<and> creation_requests
        (fst (snd (create_linked_column eager_server
                     [column_entry ''Id'' True, column_entry ''Orders'' True]
                     (titled ''Customers'') ''Orders'' (titled ''Orders'') ''hm''))) = 1"
  by code_simp

text \<open>
  C8, amended. When a column with the requested title is among the columns get_columns
  lists (the non-system ones), it is returned and no creation request is sent. When a
  call returns a column, a second call with the same title returns the same column and
  sends no creation request, so both calls together send at most one, and exactly one
  when no listed column had the title before.
\<close>

theorem create_linked_column_idempotent:
  "(get_columns (client_at srv w) tb False = Inr cols \<and> find_column name cols = Some col
      \<longrightarrow> create_linked_column srv w tb name target link_type
            = (Inr (Some col), [columns_request tb], w)
          \<and> creation_requests [columns_request tb] = 0)
   \<and> (create_linked_column srv w tb name target link_type = (Inr (Some col), sent, w')
      \<longrightarrow> create_twice srv w tb name target link_type
            = (Inr (Some col), Inr (Some col), sent @ [columns_request tb], w')
          \<and> creation_requests (sent @ [columns_request tb]) \<le> 1)
   \<and> (create_linked_column srv w tb name target link_type = (Inr (Some col), sent, w')
        \<and> get_columns (client_at srv w) tb False = Inr cols \<and> find_column name cols = None
      \<longrightarrow> creation_requests (sent @ [columns_request tb]) = 1)"
proof (intro conjI impI)
  assume "get_columns (client_at srv w) tb False = Inr cols \<and> find_column name cols = Some col"
  then show "create_linked_column srv w tb name target link_type
            = (Inr (Some col), [columns_request tb], w)"
    by (simp add: create_existing)
next
  show "creation_requests [columns_request tb] = 0"
    by simp
next
  assume a: "create_linked_column srv w tb name target link_type = (Inr (Some col), sent, w')"
  from create_returns_column [OF a] obtain cols
    where "get_columns (client_at srv w') tb False = Inr cols" "find_column name cols = Some col"
    by blast
  then have "create_linked_column srv w' tb name target link_type
             = (Inr (Some col), [columns_request tb], w')"
    by (rule create_existing)
  with a show "create_twice srv w tb name target link_type
            = (Inr (Some col), Inr (Some col), sent @ [columns_request tb], w')"
    by (simp add: create_twice_def)
next
  assume a: "create_linked_column srv w tb name target link_type = (Inr (Some col), sent, w')"
  have "creation_requests (sent @ [columns_request tb]) = creation_requests sent"
    by (simp add: creation_requests_def columns_request_def)
  with create_returns_column [OF a]
  show "creation_requests (sent @ [columns_request tb]) \<le> 1"
    by simp
next
  assume a: "create_linked_column srv w tb name target link_type = (Inr (Some col), sent, w')
        \<and> get_columns (client_at srv w) tb False = Inr cols \<and> find_column name cols = None"
  have "creation_requests (sent @ [columns_request tb]) = creation_requests sent"
    by (simp add: creation_requests_def columns_request_def)
  moreover from a create_returns_column [of srv w tb name target link_type col sent w']
  have "creation_requests sent = 1"
    by blast
  ultimately show "creation_requests (sent @ [columns_request tb]) = 1"
    by simp
qed

text \<open>
  A server that shows a created column at once: the first call creates the column Orders,
  the second returns it, one creation request in all; and with the column there from the
  start none is sent.
\<close>

theorem create_linked_column_idempotent_witness:
  "create_twice eager_server [column_entry ''Id'' True] (titled ''Customers'') ''Orders''
     (titled ''Orders'') ''hm''
   = (Inr (Some \<lparr>column_id = ''c_Orders'', column_title = ''Orders'', system = False,
                  linked_table_id = None\<rparr>),
      Inr (Some \<lparr>column_id = ''c_Orders'', column_title = ''Orders'', system = False,
                  linked_table_id = None\<rparr>),
      [columns_request (titled ''Customers''), columns_request (titled ''Customers''),
       columns_request (titled ''Orders''),
       create_request (titled ''Customers'') ''Orders'' (titled ''Orders'') ''hm'',
       columns_request (titled ''Customers'')] @ [columns_request (titled ''Customers'')],
      [column_entry ''Id'' True, column_entry ''Orders'' False])
   \<and> creation_requests
        ([columns_request (titled ''Customers''), columns_request (titled ''Customers''),
          columns_request (titled ''Orders''),
          create_request (titled ''Customers'') ''Orders'' (titled ''Orders'') ''hm'',
          columns_request (titled ''Customers'')] @ [columns_request (titled ''Customers'')])
      = 1
   \<and> create_linked_column eager_server
        [column_entry ''Id'' True, column_entry ''Orders'' False] (titled ''Customers'')
        ''Orders'' (titled ''Orders'') ''hm''
     = (Inr (Some \<lparr>column_id = ''c_Orders'', column_title = ''Orders'', system = False,
                    linked_table_id = None\<rparr>),
        [columns_request (titled ''Customers'')],
        [column_entry ''Id'' True, column_entry ''Orders'' False])"
proof -
  let ?tb = "titled ''Customers''"
  let ?target = "titled ''Orders''"
  let ?col = "\<lparr>column_id = ''c_Orders'', column_title = ''Orders'', system = False,
                linked_table_id = None\<rparr>"
  let ?sent = "[columns_request ?tb, columns_request ?tb, columns_request ?target,
                create_request ?tb ''Orders'' ?target ''hm'', columns_request ?tb]"
  let ?w' = "[column_entry ''Id'' True, column_entry ''Orders'' False]"
  have first: "create_linked_column eager_server [column_entry ''Id'' True] ?tb ''Orders''
                 ?target ''hm'' = (Inr (Some ?col), ?sent, ?w')"
    by code_simp
  have before: "get_columns (client_at eager_server [column_entry ''Id'' True]) ?tb False = Inr []
                \<and> find_column ''Orders'' [] = None"
    by code_simp
  have there: "get_columns (client_at eager_server ?w') ?tb False = Inr [?col]
               \<and> find_column ''Orders'' [?col] = Some ?col"
    by code_simp
  from create_linked_column_idempotent
    [of eager_server "[column_entry ''Id'' True]" ?tb "[]" "''Orders''" ?col ?target "''hm''"
       ?sent ?w'] first before
  have 1: "create_twice eager_server [column_entry ''Id'' True] ?tb ''Orders'' ?target ''hm''
           = (Inr (Some ?col), Inr (Some ?col), ?sent @ [columns_request ?tb], ?w')
           \<and> creation_requests (?sent @ [columns_request ?tb]) = 1"
    by blast
  from create_linked_column_idempotent
    [of eager_server ?w' ?tb "[?col]" "''Orders''" ?col ?target "''hm''"] there
  have 2: "create_linked_column eager_server ?w' ?tb ''Orders'' ?target ''hm''
           = (Inr (Some ?col), [columns_request ?tb], ?w')"
    by blast
  from 1 2 show ?thesis by blast
qed

end
